theory Spec2Isabelle
  imports Main "HOL-Library.Multiset"
begin

section \<open>Conventions of the embedding\<close>

text \<open>
  The development embeds the event server (\<^verbatim>\<open>src/event-stream/event-server.ts\<close>) and the
  mode selection of the entry point (\<^verbatim>\<open>getApiMode\<close>).

  \<^item> A thrown JavaScript exception (and a rejected promise) is a value \<open>Inl e\<close> of the sum
    \<open>error + 'a\<close>; a handler of type \<^verbatim>\<open>Promise<void>\<close> returns \<open>error option\<close>.
  \<^item> JavaScript numbers that hold heights, indexes and counters are \<open>int\<close>.
  \<^item> JSON scalars that the code converts itself (\<^verbatim>\<open>BigInt(...)\<close>, \<^verbatim>\<open>Number(...)\<close>,
    \<^verbatim>\<open>hexToBuffer(...)\<close>) are kept as their text.
  \<^item> Functions the file imports from other modules are fields of the record \<open>helpers\<close>
    that every definition takes as its first argument; each may throw.
  \<^item> The data store is seen through the calls the handlers issue to it: the state that is
    threaded through a handler is the list of calls issued so far, and the store decides,
    from that history, whether the next call is rejected.
  \<^item> Logging is not modelled.
  \<^item> Several interfaces of the source share field names (\<^verbatim>\<open>block_height\<close>,
    \<^verbatim>\<open>canonical\<close>, ...); a field keeps its source name in one record and carries a short
    prefix naming its interface in the others.
\<close>

datatype error = Error string

type_synonym buffer = string

type_synonym chain_id = int

section \<open>Messages of the core node\<close>

text \<open>\<^verbatim>\<open>CoreNodeEvent\<close>: the tag \<^verbatim>\<open>type\<close> together with the payload object of that tag.
  The arguments are the payload's fields in the order given in the comments.\<close>

datatype core_node_event_type =
    ContractEvent string string string       \<comment> \<open>contract_identifier, topic, raw_value\<close>
  | StxTransferEvent string string string    \<comment> \<open>sender, recipient, amount\<close>
  | StxMintEvent string string               \<comment> \<open>recipient, amount\<close>
  | StxBurnEvent string string               \<comment> \<open>sender, amount\<close>
  | StxLockEvent string string string        \<comment> \<open>locked_amount, unlock_height, locked_address\<close>
  | NftTransferEvent string string string string  \<comment> \<open>recipient, sender, asset_identifier, raw_value\<close>
  | NftMintEvent string string string        \<comment> \<open>recipient, asset_identifier, raw_value\<close>
  | NftBurnEvent string string string        \<comment> \<open>sender, asset_identifier, raw_value\<close>
  | FtTransferEvent string string string string   \<comment> \<open>sender, recipient, asset_identifier, amount\<close>
  | FtMintEvent string string string         \<comment> \<open>recipient, asset_identifier, amount\<close>
  | FtBurnEvent string string string         \<comment> \<open>sender, asset_identifier, amount\<close>
  | OtherEvent string                        \<comment> \<open>any other tag\<close>

record core_node_event =
  txid :: string
  ev_event_index :: int
  committed :: bool
  ev_type :: core_node_event_type

text \<open>\<^verbatim>\<open>CoreNodeTxMessage\<close>, an element of \<^verbatim>\<open>msg.transactions\<close>.\<close>

record core_node_tx_message =
  ctx_raw_tx :: string
  ctx_txid :: string
  ctx_tx_index :: int
  ctx_contract_abi :: string
  ctx_microblock_sequence :: int
  ctx_microblock_hash :: string
  ctx_microblock_parent_hash :: string

text \<open>\<^verbatim>\<open>CoreNodeMsgBlockData\<close>, the block data handed to the transaction parser.\<close>

record core_node_msg_block_data =
  bd_block_hash :: string
  bd_index_block_hash :: string
  bd_parent_index_block_hash :: string
  bd_parent_block_hash :: string
  bd_parent_burn_block_timestamp :: int
  bd_parent_burn_block_height :: int
  bd_parent_burn_block_hash :: string
  bd_block_height :: int
  bd_burn_block_time :: int
  bd_burn_block_height :: int

record matured_miner_reward =
  from_stacks_block_hash :: string
  from_index_consensus_hash :: string
  mmr_recipient :: string
  mmr_coinbase_amount :: string
  mmr_tx_fees_anchored :: string
  mmr_tx_fees_streamed_confirmed :: string
  mmr_tx_fees_streamed_produced :: string

text \<open>\<^verbatim>\<open>CoreNodeBlockMessage\<close>.\<close>

record core_node_block_message =
  msg_block_hash :: string
  msg_block_height :: int
  msg_burn_block_time :: int
  msg_burn_block_hash :: string
  msg_burn_block_height :: int
  msg_miner_txid :: string
  msg_index_block_hash :: string
  msg_parent_index_block_hash :: string
  msg_parent_block_hash :: string
  msg_parent_microblock :: string
  msg_parent_microblock_sequence :: int
  msg_parent_burn_block_hash :: string
  msg_parent_burn_block_height :: int
  msg_parent_burn_block_timestamp :: int
  msg_events :: "core_node_event list"
  msg_transactions :: "core_node_tx_message list"
  matured_miner_rewards :: "matured_miner_reward list"

text \<open>\<^verbatim>\<open>CoreNodeMicroblockMessage\<close>.\<close>

record core_node_microblock_message =
  mbm_parent_index_block_hash :: string
  mbm_burn_block_hash :: string
  mbm_burn_block_height :: int
  mbm_burn_block_timestamp :: int
  mbm_transactions :: "core_node_tx_message list"
  mbm_events :: "core_node_event list"

record reward_recipient_entry =
  recipient :: string
  amt :: string

text \<open>\<^verbatim>\<open>CoreNodeBurnBlockMessage\<close>.\<close>

record core_node_burn_block_message =
  burn_block_hash :: string
  burn_block_height :: int
  burn_amount :: string
  reward_recipients :: "reward_recipient_entry list"
  reward_slot_holders :: "string list"

record core_node_drop_mempool_tx_message =
  dropped_txids :: "string list"
  reason :: string

text \<open>\<^verbatim>\<open>CoreNodeAttachmentMessage\<close>.\<close>

record core_node_attachment_message =
  att_contract_id :: string
  att_metadata :: string
  att_content :: string
  att_content_hash :: string
  att_tx_id :: string
  att_index_block_hash :: string
  att_block_height :: string

section \<open>Decoded transactions\<close>

text \<open>\<^verbatim>\<open>TxPayloadTypeID\<close> with the payload fields the event server reads: a smart contract
  carries \<^verbatim>\<open>contract_name\<close> and \<^verbatim>\<open>code_body\<close>.\<close>

datatype tx_payload =
    TokenTransfer
  | SmartContract string string
  | ContractCall
  | PoisonMicroblock
  | Coinbase
  | VersionedSmartContract string string

text \<open>\<^verbatim>\<open>CoreNodeParsedTxMessage\<close>, the result of the reader's \<^verbatim>\<open>parseMessageTransaction\<close>:
  the fields the event server reads, and the block fields that the reader copies from the
  block data it was called with (\<open>ptx_block_data\<close>).\<close>

record core_node_parsed_tx_message =
  core_tx :: core_node_tx_message
  parsed_tx_payload :: tx_payload
  sender_address :: string
  ptx_microblock_hash :: string
  ptx_block_data :: core_node_msg_block_data

section \<open>Records of the data store\<close>

datatype db_asset_event_type_id = Transfer | Mint | Burn

text \<open>The part of a stored event that depends on its \<^verbatim>\<open>event_type\<close>; absent
  \<^verbatim>\<open>sender\<close> and \<^verbatim>\<open>recipient\<close> fields are \<open>None\<close>.\<close>

datatype db_event_detail =
    SmartContractLog string string buffer
      \<comment> \<open>contract_identifier, topic, value\<close>
  | StxLock int "int option" string
      \<comment> \<open>locked_amount, unlock_height, locked_address\<close>
  | StxAsset db_asset_event_type_id "string option" "string option" int
      \<comment> \<open>asset_event_type_id, sender, recipient, amount\<close>
  | FungibleTokenAsset db_asset_event_type_id "string option" "string option" string int
      \<comment> \<open>asset_event_type_id, sender, recipient, asset_identifier, amount\<close>
  | NonFungibleTokenAsset db_asset_event_type_id "string option" "string option" string buffer
      \<comment> \<open>asset_event_type_id, sender, recipient, asset_identifier, value\<close>

text \<open>\<^verbatim>\<open>DbEventBase\<close> extended by the fields of its kind (\<^verbatim>\<open>DbSmartContractEvent\<close>,
  \<^verbatim>\<open>DbStxEvent\<close>, \<^verbatim>\<open>DbStxLockEvent\<close>, \<^verbatim>\<open>DbFtEvent\<close>, \<^verbatim>\<open>DbNftEvent\<close>).\<close>

record db_event =
  event_index :: int
  tx_id :: string
  tx_index :: int
  block_height :: int
  canonical :: bool
  detail :: db_event_detail

text \<open>\<^verbatim>\<open>DbTx\<close>: the fields the event server reads or writes; the record is built by
  \<^verbatim>\<open>createDbTxFromCoreMsg\<close>.\<close>

record db_tx =
  dbtx_tx_id :: string
  dbtx_tx_index :: int
  event_count :: int

record db_smart_contract =
  sc_tx_id :: string
  contract_id :: string
  sc_block_height :: int
  source_code :: string
  abi :: string
  sc_canonical :: bool

type_synonym db_bns_name = string
type_synonym db_bns_namespace = string
type_synonym db_mempool_tx = string
type_synonym db_tx_status = string

text \<open>\<^verbatim>\<open>DataStoreTxEventData\<close>. While the bundle is being built the event lists hold
  references to event objects (\<open>'e = nat\<close>, an address of the object store); the bundle
  handed to the data store is read with the objects in place (\<open>'e = db_event\<close>).\<close>

record 'e data_store_tx_event_data =
  tx :: db_tx
  stxEvents :: "'e list"
  stxLockEvents :: "'e list"
  ftEvents :: "'e list"
  nftEvents :: "'e list"
  contractLogEvents :: "'e list"
  smartContracts :: "db_smart_contract list"
  names :: "db_bns_name list"
  namespaces :: "db_bns_namespace list"

record db_block =
  blk_canonical :: bool
  blk_block_hash :: string
  blk_index_block_hash :: string
  blk_parent_index_block_hash :: string
  blk_parent_block_hash :: string
  blk_parent_microblock_hash :: string
  blk_parent_microblock_sequence :: int
  blk_block_height :: int
  blk_burn_block_time :: int
  blk_burn_block_hash :: string
  blk_burn_block_height :: int
  blk_miner_txid :: string
  execution_cost_read_count :: int
  execution_cost_read_length :: int
  execution_cost_runtime :: int
  execution_cost_write_count :: int
  execution_cost_write_length :: int

record db_miner_reward =
  mr_canonical :: bool
  mr_block_hash :: string
  mr_index_block_hash :: string
  from_index_block_hash :: string
  mature_block_height :: int
  mr_recipient :: string
  coinbase_amount :: int
  tx_fees_anchored :: int
  tx_fees_streamed_confirmed :: int
  tx_fees_streamed_produced :: int

text \<open>\<^verbatim>\<open>DbMicroblockPartial\<close>, what the reader's \<^verbatim>\<open>parseMicroblocksFromTxs\<close> returns.\<close>

record db_microblock_partial =
  microblock_hash :: string
  microblock_sequence :: int
  microblock_parent_hash :: string
  parent_index_block_hash :: string
  parent_burn_block_height :: int
  parent_burn_block_hash :: string
  parent_burn_block_time :: int

text \<open>\<^verbatim>\<open>DbMicroblock\<close>: the partial record spread into the fields the anchor block adds.\<close>

record db_microblock =
  mb_partial :: db_microblock_partial
  mb_canonical :: bool
  microblock_canonical :: bool
  mb_block_height :: int
  parent_block_height :: int
  mb_parent_block_hash :: string
  mb_index_block_hash :: string
  mb_block_hash :: string

record db_burnchain_reward =
  br_canonical :: bool
  br_burn_block_hash :: string
  br_burn_block_height :: int
  br_burn_amount :: int
  reward_recipient :: string
  reward_amount :: int
  reward_index :: int

record db_reward_slot_holder =
  sh_canonical :: bool
  sh_burn_block_hash :: string
  sh_burn_block_height :: int
  address :: string
  slot_index :: int

text \<open>\<^verbatim>\<open>DataStoreAttachmentData\<close>.\<close>

record data_store_attachment_data =
  att_op :: string
  zonefile :: string
  att_name :: string
  att_namespace :: string
  zonefileHash :: string
  txId :: string
  indexBlockHash :: string
  blockHeight :: "int option"

record data_store_block_update_data =
  block :: db_block
  microblocks :: "db_microblock list"
  minerRewards :: "db_miner_reward list"
  txs :: "db_event data_store_tx_event_data list"

record data_store_microblock_update_data =
  mu_microblocks :: "db_microblock_partial list"
  mu_txs :: "db_event data_store_tx_event_data list"

section \<open>The data store\<close>

text \<open>One constructor per method of \<^verbatim>\<open>DataStore\<close> that the event server calls, with the
  method's arguments.\<close>

datatype store_call =
    StoreRawEventRequest string string
  | Update data_store_block_update_data
  | UpdateMicroblocks data_store_microblock_update_data
  | UpdateBurnchainRewards string int "db_burnchain_reward list"
  | UpdateBurnchainRewardSlotHolders string int "db_reward_slot_holder list"
  | UpdateMempoolTxs "db_mempool_tx list"
  | DropMempoolTxs db_tx_status "string list"
  | UpdateAttachments "data_store_attachment_data list"

text \<open>A store answers a call from the calls issued to it before: \<open>None\<close> when the returned
  promise resolves, \<open>Some e\<close> when it rejects with \<open>e\<close>.\<close>

type_synonym data_store = "store_call list \<Rightarrow> store_call \<Rightarrow> error option"

definition db_call :: "data_store \<Rightarrow> store_call \<Rightarrow> store_call list \<Rightarrow> error option \<times> store_call list" where
  "db_call db c log = (db log c, log @ [c])"

section \<open>Imported functions\<close>

text \<open>The functions the two source files import from modules outside them, and the
  built-in conversions. \<open>Inl\<close> is a thrown exception; \<open>Inr None\<close> is a returned
  \<^verbatim>\<open>null\<close> or \<^verbatim>\<open>undefined\<close>.
  \<^item> \<^verbatim>\<open>Number(...)\<close> and \<^verbatim>\<open>Number.parseInt(..., 10)\<close> do not throw: \<open>None\<close> is
    \<^verbatim>\<open>NaN\<close>.
  \<^item> \<open>decodeMempoolTx\<close> stands for \<^verbatim>\<open>decodeTransaction\<close> followed by
    \<^verbatim>\<open>getTxSenderAddress\<close> and \<^verbatim>\<open>getTxSponsorAddress\<close>.
  \<^item> \<open>isBnsContractIdentifier\<close> is the comparison with the two constants of
    \<^verbatim>\<open>BnsContractIdentifier\<close>; \<open>decodeClarityValue\<close> returns the fields \<^verbatim>\<open>op\<close>,
    \<^verbatim>\<open>name\<close> and \<^verbatim>\<open>namespace\<close> of the metadata tuple.
  \<^item> \<open>now\<close> is the value of \<^verbatim>\<open>Math.round(Date.now() / 1000)\<close> at the call.
  \<^item> \<open>express_match route path\<close> is the path matching of express.
  \<^item> A request body is JSON, kept as text. \<open>body_as_block\<close> and its siblings read a
    body as the message type a route casts it to; \<open>Inl\<close> is the \<^verbatim>\<open>TypeError\<close> that a
    body of another shape raises in the handler, which reads the message before it calls
    the store.\<close>

type_synonym decoded_mempool_tx = string

record helpers =
  hexToBuffer :: "string \<Rightarrow> error + buffer"
  BigInt :: "string \<Rightarrow> error + int"
  Number :: "string \<Rightarrow> int option"
  JSON_stringify :: "string \<Rightarrow> string"
  inspect :: "core_node_event \<Rightarrow> string"
  parseArgBoolean :: "string option \<Rightarrow> error + bool"
  createDbTxFromCoreMsg :: "core_node_parsed_tx_message \<Rightarrow> error + db_tx"
  parseMessageTransaction ::
    "chain_id \<Rightarrow> core_node_tx_message \<Rightarrow> core_node_msg_block_data \<Rightarrow> core_node_event list
      \<Rightarrow> error + core_node_parsed_tx_message option"
  parseMicroblocksFromTxs ::
    "string \<Rightarrow> core_node_tx_message list \<Rightarrow> int \<times> string \<times> int
      \<Rightarrow> error + db_microblock_partial list"
  parseNameRenewalWithNoZonefileHashFromContractCall ::
    "core_node_parsed_tx_message \<Rightarrow> chain_id \<Rightarrow> error + db_bns_name option"
  parseNameFromContractEvent ::
    "core_node_event \<Rightarrow> core_node_parsed_tx_message \<Rightarrow> core_node_event list \<Rightarrow> int \<Rightarrow> chain_id
      \<Rightarrow> error + db_bns_name option"
  parseNamespaceFromContractEvent ::
    "core_node_event \<Rightarrow> core_node_parsed_tx_message \<Rightarrow> int \<Rightarrow> error + db_bns_namespace option"
  decodeMempoolTx :: "buffer \<Rightarrow> error + decoded_mempool_tx"
  createDbMempoolTxFromCoreMsg :: "decoded_mempool_tx \<Rightarrow> buffer \<Rightarrow> int \<Rightarrow> error + db_mempool_tx"
  getTxDbStatus :: "string \<Rightarrow> error + db_tx_status"
  isBnsContractIdentifier :: "string \<Rightarrow> bool"
  decodeClarityValue :: "string \<Rightarrow> error + string \<times> string \<times> string"
  toString_utf8 :: "buffer \<Rightarrow> string"
  parseInt :: "string \<Rightarrow> int option"
  now :: int
  express_match :: "string \<Rightarrow> string \<Rightarrow> bool"
  body_as_block :: "string \<Rightarrow> error + core_node_block_message"
  body_as_burn_block :: "string \<Rightarrow> error + core_node_burn_block_message"
  body_as_mempool_txs :: "string \<Rightarrow> error + string list"
  body_as_drop_mempool_tx :: "string \<Rightarrow> error + core_node_drop_mempool_tx_message"
  body_as_attachments :: "string \<Rightarrow> error + core_node_attachment_message list"
  body_as_microblock :: "string \<Rightarrow> error + core_node_microblock_message"

section \<open>Mode selection (\<^verbatim>\<open>getApiMode\<close>)\<close>

datatype stacks_api_mode = default_mode | readOnly | writeOnly | offline

text \<open>\<open>env\<close> is \<^verbatim>\<open>process.env\<close>: a variable that is not set reads as \<open>None\<close>.\<close>

definition getApiMode :: "helpers \<Rightarrow> (string \<Rightarrow> string option) \<Rightarrow> error + stacks_api_mode" where
  "getApiMode h env =
    (if env ''STACKS_API_MODE'' = Some ''readonly'' then Inr readOnly
     else if env ''STACKS_API_MODE'' = Some ''writeonly'' then Inr writeOnly
     else if env ''STACKS_API_MODE'' = Some ''offline'' then Inr offline
     else
       (case parseArgBoolean h (env ''STACKS_READ_ONLY_MODE'') of
          Inl e \<Rightarrow> Inl e
        | Inr True \<Rightarrow> Inr readOnly
        | Inr False \<Rightarrow>
            (case parseArgBoolean h (env ''STACKS_API_OFFLINE_MODE'') of
               Inl e \<Rightarrow> Inl e
             | Inr True \<Rightarrow> Inr offline
             | Inr False \<Rightarrow> Inr default_mode)))"

section \<open>Traversals that may throw\<close>

text \<open>\<^verbatim>\<open>Array.prototype.map\<close> with a callback \<open>f element index\<close> that may throw: the
  first exception ends the traversal.\<close>

fun array_map :: "('a \<Rightarrow> nat \<Rightarrow> error + 'b) \<Rightarrow> 'a list \<Rightarrow> nat \<Rightarrow> error + 'b list" where
  "array_map f [] i = Inr []"
| "array_map f (x # xs) i =
    (case f x i of
       Inl e \<Rightarrow> Inl e
     | Inr y \<Rightarrow> (case array_map f xs (Suc i) of Inl e \<Rightarrow> Inl e | Inr ys \<Rightarrow> Inr (y # ys)))"

text \<open>The position of the element that \<^verbatim>\<open>Array.prototype.find\<close> returns; the source
  mutates the element it found, the model updates the list at this position.\<close>

fun findIndex :: "('a \<Rightarrow> bool) \<Rightarrow> 'a list \<Rightarrow> nat option" where
  "findIndex P [] = None"
| "findIndex P (x # xs) = (if P x then Some 0 else map_option Suc (findIndex P xs))"

section \<open>Burn blocks (\<^verbatim>\<open>handleBurnBlockMessage\<close>)\<close>

definition handleBurnBlockMessage_rewards ::
  "helpers \<Rightarrow> core_node_burn_block_message \<Rightarrow> error + db_burnchain_reward list" where
  "handleBurnBlockMessage_rewards h burnBlockMsg =
    array_map (\<lambda>r index.
      case BigInt h (burn_amount burnBlockMsg) of
        Inl e \<Rightarrow> Inl e
      | Inr burnAmount \<Rightarrow>
          (case BigInt h (amt r) of
             Inl e \<Rightarrow> Inl e
           | Inr rewardAmount \<Rightarrow>
               Inr \<lparr> br_canonical = True,
                     br_burn_block_hash = burn_block_hash burnBlockMsg,
                     br_burn_block_height = burn_block_height burnBlockMsg,
                     br_burn_amount = burnAmount,
                     reward_recipient = recipient r,
                     reward_amount = rewardAmount,
                     reward_index = int index \<rparr>))
      (reward_recipients burnBlockMsg) 0"

definition handleBurnBlockMessage_slotHolders ::
  "core_node_burn_block_message \<Rightarrow> db_reward_slot_holder list" where
  "handleBurnBlockMessage_slotHolders burnBlockMsg =
    map (\<lambda>(index, r).
      \<lparr> sh_canonical = True,
        sh_burn_block_hash = burn_block_hash burnBlockMsg,
        sh_burn_block_height = burn_block_height burnBlockMsg,
        address = r,
        slot_index = int index \<rparr>)
      (enumerate 0 (reward_slot_holders burnBlockMsg))"

definition handleBurnBlockMessage ::
  "helpers \<Rightarrow> core_node_burn_block_message \<Rightarrow> data_store \<Rightarrow> store_call list
    \<Rightarrow> error option \<times> store_call list" where
  "handleBurnBlockMessage h burnBlockMsg db log =
    (case handleBurnBlockMessage_rewards h burnBlockMsg of
       Inl e \<Rightarrow> (Some e, log)
     | Inr rewards \<Rightarrow>
         (let slotHolders = handleBurnBlockMessage_slotHolders burnBlockMsg in
          case db_call db (UpdateBurnchainRewards (burn_block_hash burnBlockMsg)
                             (burn_block_height burnBlockMsg) rewards) log of
            (Some e, log1) \<Rightarrow> (Some e, log1)
          | (None, log1) \<Rightarrow>
              db_call db (UpdateBurnchainRewardSlotHolders (burn_block_hash burnBlockMsg)
                            (burn_block_height burnBlockMsg) slotHolders) log1))"

section \<open>Event extraction (\<^verbatim>\<open>parseDataStoreTxEventData\<close>)\<close>

text \<open>The \<^verbatim>\<open>blockData\<close> argument of \<^verbatim>\<open>parseDataStoreTxEventData\<close>.\<close>

record tx_event_block_data =
  ted_block_height :: int
  ted_index_block_hash :: string

text \<open>The callback of \<^verbatim>\<open>parsedTxs.map\<close>: the entry of one transaction, with empty event
  lists, its smart contract and the name of a renewal without zonefile hash.\<close>

definition initDbTx ::
  "helpers \<Rightarrow> tx_event_block_data \<Rightarrow> chain_id \<Rightarrow> core_node_parsed_tx_message
    \<Rightarrow> error + nat data_store_tx_event_data" where
  "initDbTx h blockData chainId ptx =
    (case createDbTxFromCoreMsg h ptx of
       Inl e \<Rightarrow> Inl e
     | Inr t \<Rightarrow>
         (let dbTx = \<lparr> tx = t, stxEvents = [], stxLockEvents = [], ftEvents = [], nftEvents = [],
                        contractLogEvents = [], smartContracts = [], names = [], namespaces = [] \<rparr>
          in case parsed_tx_payload ptx of
               SmartContract contract_name code_body \<Rightarrow>
                 Inr (dbTx\<lparr> smartContracts := smartContracts dbTx @
                   [\<lparr> sc_tx_id = ctx_txid (core_tx ptx),
                      contract_id = sender_address ptx @ ''.'' @ contract_name,
                      sc_block_height = ted_block_height blockData,
                      source_code = code_body,
                      abi = JSON_stringify h (ctx_contract_abi (core_tx ptx)),
                      sc_canonical = True \<rparr>] \<rparr>)
             | ContractCall \<Rightarrow>
                 (case parseNameRenewalWithNoZonefileHashFromContractCall h ptx chainId of
                    Inl e \<Rightarrow> Inl e
                  | Inr None \<Rightarrow> Inr dbTx
                  | Inr (Some name) \<Rightarrow> Inr (dbTx\<lparr> names := names dbTx @ [name] \<rparr>))
             | _ \<Rightarrow> Inr dbTx))"

text \<open>The five event lists of an entry, and \<^verbatim>\<open>dbTx.<list>.push(entry)\<close>.\<close>

datatype event_bucket = ContractLogEvents | FtEvents | NftEvents | StxEvents | StxLockEvents

fun push :: "event_bucket \<Rightarrow> 'e \<Rightarrow> 'e data_store_tx_event_data \<Rightarrow> 'e data_store_tx_event_data" where
  "push ContractLogEvents r t = t\<lparr> contractLogEvents := contractLogEvents t @ [r] \<rparr>"
| "push FtEvents r t = t\<lparr> ftEvents := ftEvents t @ [r] \<rparr>"
| "push NftEvents r t = t\<lparr> nftEvents := nftEvents t @ [r] \<rparr>"
| "push StxEvents r t = t\<lparr> stxEvents := stxEvents t @ [r] \<rparr>"
| "push StxLockEvents r t = t\<lparr> stxLockEvents := stxLockEvents t @ [r] \<rparr>"

text \<open>The body of the \<^verbatim>\<open>switch (event.type)\<close>: the object \<^verbatim>\<open>entry\<close> that a case builds
  from \<^verbatim>\<open>{...dbEvent, ...}\<close> and the list the case pushes it to. \<open>dbEvent\<close> is the base
  record still waiting for the fields of the kind. The default case throws.\<close>

fun event_entry ::
  "helpers \<Rightarrow> (db_event_detail \<Rightarrow> db_event) \<Rightarrow> core_node_event \<Rightarrow> error + event_bucket \<times> db_event" where
  "event_entry h dbEvent event =
    (case ev_type event of
       ContractEvent contract_identifier topic raw_value \<Rightarrow>
         (case hexToBuffer h raw_value of
            Inl e \<Rightarrow> Inl e
          | Inr v \<Rightarrow> Inr (ContractLogEvents, dbEvent (SmartContractLog contract_identifier topic v)))
     | StxLockEvent locked_amount unlock_height locked_address \<Rightarrow>
         (case BigInt h locked_amount of
            Inl e \<Rightarrow> Inl e
          | Inr a \<Rightarrow> Inr (StxLockEvents, dbEvent (StxLock a (Number h unlock_height) locked_address)))
     | StxTransferEvent sender recipient' amount \<Rightarrow>
         (case BigInt h amount of
            Inl e \<Rightarrow> Inl e
          | Inr a \<Rightarrow> Inr (StxEvents, dbEvent (StxAsset Transfer (Some sender) (Some recipient') a)))
     | StxMintEvent recipient' amount \<Rightarrow>
         (case BigInt h amount of
            Inl e \<Rightarrow> Inl e
          | Inr a \<Rightarrow> Inr (StxEvents, dbEvent (StxAsset Mint None (Some recipient') a)))
     | StxBurnEvent sender amount \<Rightarrow>
         (case BigInt h amount of
            Inl e \<Rightarrow> Inl e
          | Inr a \<Rightarrow> Inr (StxEvents, dbEvent (StxAsset Burn (Some sender) None a)))
     | FtTransferEvent sender recipient' asset_identifier amount \<Rightarrow>
         (case BigInt h amount of
            Inl e \<Rightarrow> Inl e
          | Inr a \<Rightarrow> Inr (FtEvents,
              dbEvent (FungibleTokenAsset Transfer (Some sender) (Some recipient') asset_identifier a)))
     | FtMintEvent recipient' asset_identifier amount \<Rightarrow>
         (case BigInt h amount of
            Inl e \<Rightarrow> Inl e
          | Inr a \<Rightarrow> Inr (FtEvents,
              dbEvent (FungibleTokenAsset Mint None (Some recipient') asset_identifier a)))
     | FtBurnEvent sender asset_identifier amount \<Rightarrow>
         (case BigInt h amount of
            Inl e \<Rightarrow> Inl e
          | Inr a \<Rightarrow> Inr (FtEvents,
              dbEvent (FungibleTokenAsset Burn (Some sender) None asset_identifier a)))
     | NftTransferEvent recipient' sender asset_identifier raw_value \<Rightarrow>
         (case hexToBuffer h raw_value of
            Inl e \<Rightarrow> Inl e
          | Inr v \<Rightarrow> Inr (NftEvents,
              dbEvent (NonFungibleTokenAsset Transfer (Some sender) (Some recipient') asset_identifier v)))
     | NftMintEvent recipient' asset_identifier raw_value \<Rightarrow>
         (case hexToBuffer h raw_value of
            Inl e \<Rightarrow> Inl e
          | Inr v \<Rightarrow> Inr (NftEvents,
              dbEvent (NonFungibleTokenAsset Mint None (Some recipient') asset_identifier v)))
     | NftBurnEvent sender asset_identifier raw_value \<Rightarrow>
         (case hexToBuffer h raw_value of
            Inl e \<Rightarrow> Inl e
          | Inr v \<Rightarrow> Inr (NftEvents,
              dbEvent (NonFungibleTokenAsset Burn (Some sender) None asset_identifier v)))
     | OtherEvent t \<Rightarrow> Inl (Error (''Unexpected CoreNodeEventType: '' @ inspect h event)))"

text \<open>The rest of the \<^verbatim>\<open>ContractEvent\<close> case, after the push: the names and namespaces
  of the name system, appended to the entry at position \<open>i\<close>.\<close>

definition contract_event_bns ::
  "helpers \<Rightarrow> core_node_parsed_tx_message list \<Rightarrow> core_node_event list \<Rightarrow> tx_event_block_data
    \<Rightarrow> chain_id \<Rightarrow> core_node_event \<Rightarrow> nat \<Rightarrow> nat data_store_tx_event_data list
    \<Rightarrow> error + nat data_store_tx_event_data list" where
  "contract_event_bns h parsedTxs events blockData chainId event i dbData =
    (case find (\<lambda>entry. ctx_txid (core_tx entry) = txid event) parsedTxs of
       None \<Rightarrow> Inl (Error (''Unexpected missing tx during BNS parsing by tx_id '' @ txid event))
     | Some parsedTx \<Rightarrow>
         (case parseNameFromContractEvent h event parsedTx events (ted_block_height blockData) chainId of
            Inl e \<Rightarrow> Inl e
          | Inr name \<Rightarrow>
              (let dbData1 = (case name of
                                None \<Rightarrow> dbData
                              | Some n \<Rightarrow> dbData[i := (dbData ! i)\<lparr> names := names (dbData ! i) @ [n] \<rparr>])
               in case parseNamespaceFromContractEvent h event parsedTx (ted_block_height blockData) of
                    Inl e \<Rightarrow> Inl e
                  | Inr None \<Rightarrow> Inr dbData1
                  | Inr (Some ns) \<Rightarrow>
                      Inr (dbData1[i := (dbData1 ! i)\<lparr> namespaces := namespaces (dbData1 ! i) @ [ns] \<rparr>]))))"

text \<open>One iteration of \<^verbatim>\<open>for (const event of events)\<close>. The state is the list
  \<^verbatim>\<open>dbData\<close> and the store of the event objects created so far; a new object gets the
  next free address.\<close>

definition scatter_event ::
  "helpers \<Rightarrow> core_node_parsed_tx_message list \<Rightarrow> core_node_event list \<Rightarrow> tx_event_block_data
    \<Rightarrow> chain_id \<Rightarrow> core_node_event \<Rightarrow> nat data_store_tx_event_data list \<times> db_event list
    \<Rightarrow> error + nat data_store_tx_event_data list \<times> db_event list" where
  "scatter_event h parsedTxs events blockData chainId event st =
    (case st of (dbData, objs) \<Rightarrow>
      if \<not> committed event then Inr (dbData, objs)
      else
        (case findIndex (\<lambda>entry. dbtx_tx_id (tx entry) = txid event) dbData of
           None \<Rightarrow> Inl (Error (''Unexpected missing tx during event parsing by tx_id '' @ txid event))
         | Some i \<Rightarrow>
             (let dbTx = dbData ! i;
                  dbEvent = (\<lambda>d. \<lparr> event_index = ev_event_index event,
                                    tx_id = txid event,
                                    tx_index = dbtx_tx_index (tx dbTx),
                                    block_height = ted_block_height blockData,
                                    canonical = True,
                                    detail = d \<rparr>)
              in case event_entry h dbEvent event of
                   Inl e \<Rightarrow> Inl e
                 | Inr (b, entry) \<Rightarrow>
                     (let dbData1 = dbData[i := push b (length objs) dbTx];
                          objs1 = objs @ [entry]
                      in if b = ContractLogEvents then
                           (case contract_event_bns h parsedTxs events blockData chainId event i dbData1 of
                              Inl e \<Rightarrow> Inl e
                            | Inr dbData2 \<Rightarrow> Inr (dbData2, objs1))
                         else Inr (dbData1, objs1)))))"

fun scatter ::
  "helpers \<Rightarrow> core_node_parsed_tx_message list \<Rightarrow> core_node_event list \<Rightarrow> tx_event_block_data
    \<Rightarrow> chain_id \<Rightarrow> core_node_event list \<Rightarrow> nat data_store_tx_event_data list \<times> db_event list
    \<Rightarrow> error + nat data_store_tx_event_data list \<times> db_event list" where
  "scatter h parsedTxs events blockData chainId [] st = Inr st"
| "scatter h parsedTxs events blockData chainId (event # rest) st =
    (case scatter_event h parsedTxs events blockData chainId event st of
       Inl e \<Rightarrow> Inl e
     | Inr st1 \<Rightarrow> scatter h parsedTxs events blockData chainId rest st1)"

text \<open>The array \<^verbatim>\<open>[contractLogEvents, ftEvents, nftEvents, stxEvents, stxLockEvents].flat()\<close>.\<close>

definition flat :: "'e data_store_tx_event_data \<Rightarrow> 'e list" where
  "flat t = contractLogEvents t @ ftEvents t @ nftEvents t @ stxEvents t @ stxLockEvents t"

text \<open>\<^verbatim>\<open>for (let i = 0; ...) sortedEvents[i].event_index = i\<close>, started at \<open>i\<close>: the
  assignment writes to the object the reference points to.\<close>

fun renumber :: "nat list \<Rightarrow> nat \<Rightarrow> db_event list \<Rightarrow> db_event list" where
  "renumber [] i objs = objs"
| "renumber (r # rs) i objs = renumber rs (Suc i) (objs[r := (objs ! r)\<lparr> event_index := int i \<rparr>])"

text \<open>The references of an entry sorted with the comparator
  \<^verbatim>\<open>(a, b) => a.event_index - b.event_index\<close>; \<^verbatim>\<open>Array.prototype.sort\<close> is stable.\<close>

definition sortedEvents :: "db_event list \<Rightarrow> nat data_store_tx_event_data \<Rightarrow> nat list" where
  "sortedEvents objs t = sort_key (\<lambda>r. event_index (objs ! r)) (flat t)"

text \<open>The loop \<^verbatim>\<open>for (const tx of dbData)\<close> that normalizes the event indexes.\<close>

fun normalizeEventIndexes ::
  "nat data_store_tx_event_data list \<Rightarrow> db_event list
    \<Rightarrow> nat data_store_tx_event_data list \<times> db_event list" where
  "normalizeEventIndexes [] objs = ([], objs)"
| "normalizeEventIndexes (t # ts) objs =
    (let sorted_events = sortedEvents objs t;
         t1 = t\<lparr> tx := (tx t)\<lparr> event_count := int (length sorted_events) \<rparr> \<rparr>;
         objs1 = renumber sorted_events 0 objs
     in case normalizeEventIndexes ts objs1 of (ts1, objs2) \<Rightarrow> (t1 # ts1, objs2))"

text \<open>The bundle as its reader sees it: every reference replaced by the object it points
  to. A reference held by an entry is the address of an object of the store (lemma
  \<open>scattered_wf\<close> below), so the read is never out of range.\<close>

definition resolve :: "db_event list \<Rightarrow> nat data_store_tx_event_data \<Rightarrow> db_event data_store_tx_event_data" where
  "resolve objs t =
    \<lparr> tx = tx t,
      stxEvents = map (\<lambda>r. objs ! r) (stxEvents t),
      stxLockEvents = map (\<lambda>r. objs ! r) (stxLockEvents t),
      ftEvents = map (\<lambda>r. objs ! r) (ftEvents t),
      nftEvents = map (\<lambda>r. objs ! r) (nftEvents t),
      contractLogEvents = map (\<lambda>r. objs ! r) (contractLogEvents t),
      smartContracts = smartContracts t,
      names = names t,
      namespaces = namespaces t \<rparr>"

text \<open>The state of \<^verbatim>\<open>parseDataStoreTxEventData\<close> when the loop over the events has ended
  and the normalization has not begun.\<close>

definition scattered ::
  "helpers \<Rightarrow> core_node_parsed_tx_message list \<Rightarrow> core_node_event list \<Rightarrow> tx_event_block_data
    \<Rightarrow> chain_id \<Rightarrow> error + nat data_store_tx_event_data list \<times> db_event list" where
  "scattered h parsedTxs events blockData chainId =
    (case array_map (\<lambda>ptx index. initDbTx h blockData chainId ptx) parsedTxs 0 of
       Inl e \<Rightarrow> Inl e
     | Inr dbData \<Rightarrow> scatter h parsedTxs events blockData chainId events (dbData, []))"

definition parseDataStoreTxEventData ::
  "helpers \<Rightarrow> core_node_parsed_tx_message list \<Rightarrow> core_node_event list \<Rightarrow> tx_event_block_data
    \<Rightarrow> chain_id \<Rightarrow> error + db_event data_store_tx_event_data list" where
  "parseDataStoreTxEventData h parsedTxs events blockData chainId =
    (case scattered h parsedTxs events blockData chainId of
       Inl e \<Rightarrow> Inl e
     | Inr (dbData, objs) \<Rightarrow>
         (case normalizeEventIndexes dbData objs of (dbData1, objs1) \<Rightarrow> Inr (map (resolve objs1) dbData1)))"

text \<open>The bundle before the normalization, read the same way.\<close>

definition beforeNormalization ::
  "helpers \<Rightarrow> core_node_parsed_tx_message list \<Rightarrow> core_node_event list \<Rightarrow> tx_event_block_data
    \<Rightarrow> chain_id \<Rightarrow> error + db_event data_store_tx_event_data list" where
  "beforeNormalization h parsedTxs events blockData chainId =
    (case scattered h parsedTxs events blockData chainId of
       Inl e \<Rightarrow> Inl e
     | Inr (dbData, objs) \<Rightarrow> Inr (map (resolve objs) dbData))"

section \<open>Anchor blocks and microblocks\<close>

text \<open>The loop \<^verbatim>\<open>msg.transactions.forEach\<close> of both handlers: the parsed transactions,
  without those the parser returned \<^verbatim>\<open>null\<close> for. An exception of the parser leaves the
  loop and the handler.\<close>

fun parseTransactions ::
  "helpers \<Rightarrow> chain_id \<Rightarrow> core_node_msg_block_data \<Rightarrow> core_node_event list
    \<Rightarrow> core_node_tx_message list \<Rightarrow> error + core_node_parsed_tx_message list" where
  "parseTransactions h chainId blockData events [] = Inr []"
| "parseTransactions h chainId blockData events (item # rest) =
    (case parseMessageTransaction h chainId item blockData events of
       Inl e \<Rightarrow> Inl e
     | Inr parsedTx \<Rightarrow>
         (case parseTransactions h chainId blockData events rest of
            Inl e \<Rightarrow> Inl e
          | Inr parsedTxs \<Rightarrow>
              Inr ((case parsedTx of None \<Rightarrow> [] | Some p \<Rightarrow> [p]) @ parsedTxs)))"

text \<open>The \<^verbatim>\<open>blockData\<close> that \<^verbatim>\<open>handleMicroblockMessage\<close> builds for every transaction.\<close>

definition microblock_blockData :: "core_node_microblock_message \<Rightarrow> core_node_msg_block_data" where
  "microblock_blockData msg =
    \<lparr> bd_block_hash = '''',
      bd_index_block_hash = '''',
      bd_parent_index_block_hash = mbm_parent_index_block_hash msg,
      bd_parent_block_hash = '''',
      bd_parent_burn_block_timestamp = mbm_burn_block_timestamp msg,
      bd_parent_burn_block_height = mbm_burn_block_height msg,
      bd_parent_burn_block_hash = mbm_burn_block_hash msg,
      bd_block_height = - 1,
      bd_burn_block_time = - 1,
      bd_burn_block_height = - 1 \<rparr>"

text \<open>What \<^verbatim>\<open>handleMicroblockMessage\<close> hands to \<^verbatim>\<open>db.updateMicroblocks\<close>.\<close>

definition handleMicroblockMessage_updateData ::
  "helpers \<Rightarrow> chain_id \<Rightarrow> core_node_microblock_message \<Rightarrow> error + data_store_microblock_update_data" where
  "handleMicroblockMessage_updateData h chainId msg =
    (case parseMicroblocksFromTxs h (mbm_parent_index_block_hash msg) (mbm_transactions msg)
            (mbm_burn_block_height msg, mbm_burn_block_hash msg, mbm_burn_block_timestamp msg) of
       Inl e \<Rightarrow> Inl e
     | Inr dbMicroblocks \<Rightarrow>
         (case parseTransactions h chainId (microblock_blockData msg) (mbm_events msg)
                 (mbm_transactions msg) of
            Inl e \<Rightarrow> Inl e
          | Inr parsedTxs \<Rightarrow>
              (case parseDataStoreTxEventData h parsedTxs (mbm_events msg)
                      \<lparr> ted_block_height = - 1, ted_index_block_hash = '''' \<rparr> chainId of
                 Inl e \<Rightarrow> Inl e
               | Inr t \<Rightarrow> Inr \<lparr> mu_microblocks = dbMicroblocks, mu_txs = t \<rparr>)))"

definition handleMicroblockMessage ::
  "helpers \<Rightarrow> chain_id \<Rightarrow> core_node_microblock_message \<Rightarrow> data_store \<Rightarrow> store_call list
    \<Rightarrow> error option \<times> store_call list" where
  "handleMicroblockMessage h chainId msg db log =
    (case handleMicroblockMessage_updateData h chainId msg of
       Inl e \<Rightarrow> (Some e, log)
     | Inr updateData \<Rightarrow> db_call db (UpdateMicroblocks updateData) log)"

text \<open>\<^verbatim>\<open>const blockData: CoreNodeMsgBlockData = { ...msg }\<close>, read at its type.\<close>

definition block_blockData :: "core_node_block_message \<Rightarrow> core_node_msg_block_data" where
  "block_blockData msg =
    \<lparr> bd_block_hash = msg_block_hash msg,
      bd_index_block_hash = msg_index_block_hash msg,
      bd_parent_index_block_hash = msg_parent_index_block_hash msg,
      bd_parent_block_hash = msg_parent_block_hash msg,
      bd_parent_burn_block_timestamp = msg_parent_burn_block_timestamp msg,
      bd_parent_burn_block_height = msg_parent_burn_block_height msg,
      bd_parent_burn_block_hash = msg_parent_burn_block_hash msg,
      bd_block_height = msg_block_height msg,
      bd_burn_block_time = msg_burn_block_time msg,
      bd_burn_block_height = msg_burn_block_height msg \<rparr>"

definition dbBlock :: "core_node_block_message \<Rightarrow> db_block" where
  "dbBlock msg =
    \<lparr> blk_canonical = True,
      blk_block_hash = msg_block_hash msg,
      blk_index_block_hash = msg_index_block_hash msg,
      blk_parent_index_block_hash = msg_parent_index_block_hash msg,
      blk_parent_block_hash = msg_parent_block_hash msg,
      blk_parent_microblock_hash = msg_parent_microblock msg,
      blk_parent_microblock_sequence = msg_parent_microblock_sequence msg,
      blk_block_height = msg_block_height msg,
      blk_burn_block_time = msg_burn_block_time msg,
      blk_burn_block_hash = msg_burn_block_hash msg,
      blk_burn_block_height = msg_burn_block_height msg,
      blk_miner_txid = msg_miner_txid msg,
      execution_cost_read_count = 0,
      execution_cost_read_length = 0,
      execution_cost_runtime = 0,
      execution_cost_write_count = 0,
      execution_cost_write_length = 0 \<rparr>"

definition dbMinerRewards :: "helpers \<Rightarrow> core_node_block_message \<Rightarrow> error + db_miner_reward list" where
  "dbMinerRewards h msg =
    array_map (\<lambda>minerReward index.
      case BigInt h (mmr_coinbase_amount minerReward) of
        Inl e \<Rightarrow> Inl e
      | Inr coinbase \<Rightarrow>
      (case BigInt h (mmr_tx_fees_anchored minerReward) of
        Inl e \<Rightarrow> Inl e
      | Inr anchored \<Rightarrow>
      (case BigInt h (mmr_tx_fees_streamed_confirmed minerReward) of
        Inl e \<Rightarrow> Inl e
      | Inr confirmed \<Rightarrow>
      (case BigInt h (mmr_tx_fees_streamed_produced minerReward) of
        Inl e \<Rightarrow> Inl e
      | Inr produced \<Rightarrow>
          Inr \<lparr> mr_canonical = True,
                mr_block_hash = from_stacks_block_hash minerReward,
                mr_index_block_hash = msg_index_block_hash msg,
                from_index_block_hash = from_index_consensus_hash minerReward,
                mature_block_height = msg_block_height msg,
                mr_recipient = mmr_recipient minerReward,
                coinbase_amount = coinbase,
                tx_fees_anchored = anchored,
                tx_fees_streamed_confirmed = confirmed,
                tx_fees_streamed_produced = produced \<rparr>))))
      (matured_miner_rewards msg) 0"

definition dbMicroblocks :: "helpers \<Rightarrow> core_node_block_message \<Rightarrow> error + db_microblock list" where
  "dbMicroblocks h msg =
    (case parseMicroblocksFromTxs h (msg_parent_index_block_hash msg) (msg_transactions msg)
            (msg_parent_burn_block_height msg, msg_parent_burn_block_hash msg,
             msg_parent_burn_block_timestamp msg) of
       Inl e \<Rightarrow> Inl e
     | Inr mbs \<Rightarrow>
         Inr (map (\<lambda>mb.
           \<lparr> mb_partial = mb,
             mb_canonical = True,
             microblock_canonical = True,
             mb_block_height = msg_block_height msg,
             parent_block_height = msg_block_height msg - 1,
             mb_parent_block_hash = msg_parent_block_hash msg,
             mb_index_block_hash = msg_index_block_hash msg,
             mb_block_hash = msg_block_hash msg \<rparr>) mbs))"

text \<open>What \<^verbatim>\<open>handleBlockMessage\<close> hands to \<^verbatim>\<open>db.update\<close>.\<close>

definition handleBlockMessage_dbData ::
  "helpers \<Rightarrow> chain_id \<Rightarrow> core_node_block_message \<Rightarrow> error + data_store_block_update_data" where
  "handleBlockMessage_dbData h chainId msg =
    (case parseTransactions h chainId (block_blockData msg) (msg_events msg) (msg_transactions msg) of
       Inl e \<Rightarrow> Inl e
     | Inr parsedTxs \<Rightarrow>
         (case dbMinerRewards h msg of
            Inl e \<Rightarrow> Inl e
          | Inr rewards \<Rightarrow>
              (case dbMicroblocks h msg of
                 Inl e \<Rightarrow> Inl e
               | Inr mbs \<Rightarrow>
                   (case parseDataStoreTxEventData h parsedTxs (msg_events msg)
                           \<lparr> ted_block_height = msg_block_height msg,
                             ted_index_block_hash = msg_index_block_hash msg \<rparr> chainId of
                      Inl e \<Rightarrow> Inl e
                    | Inr t \<Rightarrow>
                        Inr \<lparr> block = dbBlock msg, microblocks = mbs, minerRewards = rewards,
                              txs = t \<rparr>))))"

definition handleBlockMessage ::
  "helpers \<Rightarrow> chain_id \<Rightarrow> core_node_block_message \<Rightarrow> data_store \<Rightarrow> store_call list
    \<Rightarrow> error option \<times> store_call list" where
  "handleBlockMessage h chainId msg db log =
    (case handleBlockMessage_dbData h chainId msg of
       Inl e \<Rightarrow> (Some e, log)
     | Inr dbData \<Rightarrow> db_call db (Update dbData) log)"

section \<open>The other handlers\<close>

definition handleRawEventRequest ::
  "string \<Rightarrow> string \<Rightarrow> data_store \<Rightarrow> store_call list \<Rightarrow> error option \<times> store_call list" where
  "handleRawEventRequest eventPath payload db log = db_call db (StoreRawEventRequest eventPath payload) log"

definition handleMempoolTxsMessage ::
  "helpers \<Rightarrow> string list \<Rightarrow> data_store \<Rightarrow> store_call list \<Rightarrow> error option \<times> store_call list" where
  "handleMempoolTxsMessage h rawTxs db log =
    (let receiptDate = now h in
     case array_map (\<lambda>str index. hexToBuffer h str) rawTxs 0 of
       Inl e \<Rightarrow> (Some e, log)
     | Inr rawTxBuffers \<Rightarrow>
         (case array_map (\<lambda>buf index.
                  case decodeMempoolTx h buf of Inl e \<Rightarrow> Inl e | Inr d \<Rightarrow> Inr (d, buf))
                rawTxBuffers 0 of
            Inl e \<Rightarrow> (Some e, log)
          | Inr decodedTxs \<Rightarrow>
              (case array_map (\<lambda>(d, buf) index. createDbMempoolTxFromCoreMsg h d buf receiptDate)
                      decodedTxs 0 of
                 Inl e \<Rightarrow> (Some e, log)
               | Inr dbMempoolTxs \<Rightarrow> db_call db (UpdateMempoolTxs dbMempoolTxs) log)))"

definition handleDroppedMempoolTxsMessage ::
  "helpers \<Rightarrow> core_node_drop_mempool_tx_message \<Rightarrow> data_store \<Rightarrow> store_call list
    \<Rightarrow> error option \<times> store_call list" where
  "handleDroppedMempoolTxsMessage h msg db log =
    (case getTxDbStatus h (reason msg) of
       Inl e \<Rightarrow> (Some e, log)
     | Inr dbTxStatus \<Rightarrow> db_call db (DropMempoolTxs dbTxStatus (dropped_txids msg)) log)"

text \<open>The callback of \<^verbatim>\<open>msg.map\<close> in \<^verbatim>\<open>handleNewAttachmentMessage\<close>; \<open>None\<close> is the
  \<^verbatim>\<open>undefined\<close> that the filter removes.\<close>

definition attachment_data ::
  "helpers \<Rightarrow> core_node_attachment_message \<Rightarrow> error + data_store_attachment_data option" where
  "attachment_data h message =
    (if isBnsContractIdentifier h (att_contract_id message) then
       (case decodeClarityValue h (att_metadata message) of
          Inl e \<Rightarrow> Inl e
        | Inr (op_data, name_buffer, namespace_buffer) \<Rightarrow>
            (case hexToBuffer h name_buffer of
               Inl e \<Rightarrow> Inl e
             | Inr n \<Rightarrow>
                 (case hexToBuffer h namespace_buffer of
                    Inl e \<Rightarrow> Inl e
                  | Inr ns \<Rightarrow>
                      Inr (Some \<lparr> att_op = op_data,
                                  zonefile = drop 2 (att_content message),
                                  att_name = toString_utf8 h n,
                                  att_namespace = toString_utf8 h ns,
                                  zonefileHash = att_content_hash message,
                                  txId = att_tx_id message,
                                  indexBlockHash = att_index_block_hash message,
                                  blockHeight = parseInt h (att_block_height message) \<rparr>))))
     else Inr None)"

definition handleNewAttachmentMessage ::
  "helpers \<Rightarrow> core_node_attachment_message list \<Rightarrow> data_store \<Rightarrow> store_call list
    \<Rightarrow> error option \<times> store_call list" where
  "handleNewAttachmentMessage h msg db log =
    (case array_map (\<lambda>message index. attachment_data h message) msg 0 of
       Inl e \<Rightarrow> (Some e, log)
     | Inr mapped \<Rightarrow> db_call db (UpdateAttachments (List.map_filter id mapped)) log)"

section \<open>The HTTP endpoint (\<^verbatim>\<open>startEventServer\<close>)\<close>

record request =
  req_path :: string
  req_body :: string

datatype response_json = ResultOk | ErrorJson error | NoRouteHandler string | UnhandledError error

datatype response = Response int response_json

text \<open>Modelled from the spec: \<^verbatim>\<open>asyncHandler\<close> (module \<^verbatim>\<open>api/async-handler\<close>) and the error
  handling of express are not part of the source files. When the promise of the wrapped
  handler rejects, the request ends there; section 4.5 of the specification: failures of
  the raw-payload recorder abort the request with 500.\<close>

definition asyncHandler_rejected :: "error \<Rightarrow> response" where
  "asyncHandler_rejected e = Response 500 (UnhandledError e)"

text \<open>The body of a route:
  \<^verbatim>\<open>try { await handler; res.status(200)... } catch (error) { res.status(500)... }\<close>.\<close>

definition route_response :: "error option \<times> store_call list \<Rightarrow> response \<times> store_call list" where
  "route_response r =
    (case r of
       (None, log) \<Rightarrow> (Response 200 ResultOk, log)
     | (Some e, log) \<Rightarrow> (Response 500 (ErrorJson e), log))"

text \<open>The routes registered after the interceptor, in the order of their registration;
  the first that matches the path answers the request. The handlers of the default
  message handler run one at a time through the queue of concurrency 1.\<close>

definition typed_routes ::
  "helpers \<Rightarrow> chain_id \<Rightarrow> data_store \<Rightarrow> request \<Rightarrow> store_call list \<Rightarrow> response \<times> store_call list" where
  "typed_routes h chainId db req log =
    (if express_match h ''/new_block'' (req_path req) then
       (case body_as_block h (req_body req) of
          Inl e \<Rightarrow> (Response 500 (ErrorJson e), log)
        | Inr msg \<Rightarrow> route_response (handleBlockMessage h chainId msg db log))
     else if express_match h ''/new_burn_block'' (req_path req) then
       (case body_as_burn_block h (req_body req) of
          Inl e \<Rightarrow> (Response 500 (ErrorJson e), log)
        | Inr msg \<Rightarrow> route_response (handleBurnBlockMessage h msg db log))
     else if express_match h ''/new_mempool_tx'' (req_path req) then
       (case body_as_mempool_txs h (req_body req) of
          Inl e \<Rightarrow> (Response 500 (ErrorJson e), log)
        | Inr rawTxs \<Rightarrow> route_response (handleMempoolTxsMessage h rawTxs db log))
     else if express_match h ''/drop_mempool_tx'' (req_path req) then
       (case body_as_drop_mempool_tx h (req_body req) of
          Inl e \<Rightarrow> (Response 500 (ErrorJson e), log)
        | Inr msg \<Rightarrow> route_response (handleDroppedMempoolTxsMessage h msg db log))
     else if express_match h ''/attachments/new'' (req_path req) then
       (case body_as_attachments h (req_body req) of
          Inl e \<Rightarrow> (Response 500 (ErrorJson e), log)
        | Inr msg \<Rightarrow> route_response (handleNewAttachmentMessage h msg db log))
     else if express_match h ''/new_microblocks'' (req_path req) then
       (case body_as_microblock h (req_body req) of
          Inl e \<Rightarrow> (Response 500 (ErrorJson e), log)
        | Inr msg \<Rightarrow> route_response (handleMicroblockMessage h chainId msg db log))
     else (Response 404 (NoRouteHandler (req_path req)), log))"

text \<open>A POST request whose body the JSON body parser has accepted, with the default
  message handler (\<^verbatim>\<open>createMessageProcessorQueue\<close>): the interceptor
  \<^verbatim>\<open>app.post('*', ...)\<close> awaits the raw event request and calls \<^verbatim>\<open>next()\<close>, which
  passes the request to the routes above.\<close>

definition post_request ::
  "helpers \<Rightarrow> chain_id \<Rightarrow> data_store \<Rightarrow> request \<Rightarrow> store_call list \<Rightarrow> response \<times> store_call list" where
  "post_request h chainId db req log =
    (let eventPath = req_path req;
         payload = JSON_stringify h (req_body req)
     in case handleRawEventRequest eventPath payload db log of
          (Some e, log1) \<Rightarrow> (asyncHandler_rejected e, log1)
        | (None, log1) \<Rightarrow> typed_routes h chainId db req log1)"

section \<open>Properties of store calls\<close>

text \<open>The records of a transaction entry that have a \<^verbatim>\<open>canonical\<close> field all have it
  true: its smart contracts and the events of its five lists.\<close>

definition tx_data_canonical :: "db_event data_store_tx_event_data \<Rightarrow> bool" where
  "tx_data_canonical t \<longleftrightarrow>
    (\<forall>sc\<in>set (smartContracts t). sc_canonical sc) \<and> (\<forall>d\<in>set (flat t). canonical d)"

text \<open>The same for a call to the store: the block, the microblocks, the miner rewards, the
  burnchain rewards, the reward slot holders and the transaction entries it carries. The
  microblocks of \<^verbatim>\<open>updateMicroblocks\<close> are \<^verbatim>\<open>DbMicroblockPartial\<close> records as the reader
  returned them, which have no such field.\<close>

fun all_canonical :: "store_call \<Rightarrow> bool" where
  "all_canonical (Update d) \<longleftrightarrow>
    blk_canonical (block d) \<and>
    (\<forall>mb\<in>set (microblocks d). mb_canonical mb \<and> microblock_canonical mb) \<and>
    (\<forall>r\<in>set (minerRewards d). mr_canonical r) \<and>
    (\<forall>t\<in>set (txs d). tx_data_canonical t)"
| "all_canonical (UpdateMicroblocks d) \<longleftrightarrow> (\<forall>t\<in>set (mu_txs d). tx_data_canonical t)"
| "all_canonical (UpdateBurnchainRewards burnchainBlockHash burnchainBlockHeight rewards) \<longleftrightarrow>
    (\<forall>r\<in>set rewards. br_canonical r)"
| "all_canonical (UpdateBurnchainRewardSlotHolders burnchainBlockHash burnchainBlockHeight slotHolders) \<longleftrightarrow>
    (\<forall>s\<in>set slotHolders. sh_canonical s)"
| "all_canonical c \<longleftrightarrow> True"

section \<open>Sample environment and messages\<close>

text \<open>A concrete environment and a few messages, on which the handlers are evaluated in
  the examples that follow the theorems. The sample conversions read decimal digits and
  \<^verbatim>\<open>0x\<close>-prefixed text; the sample transaction parser throws on the raw transaction
  \<^verbatim>\<open>0xff\<close> and returns \<^verbatim>\<open>null\<close> on \<^verbatim>\<open>0x00\<close>.\<close>

fun decimal :: "string \<Rightarrow> int \<Rightarrow> error + int" where
  "decimal [] acc = Inr acc"
| "decimal (c # cs) acc =
    (if c \<in> set ''0123456789'' then decimal cs (10 * acc + (of_char c - 48))
     else Inl (Error ''SyntaxError''))"

definition sample_parseMessageTransaction ::
  "chain_id \<Rightarrow> core_node_tx_message \<Rightarrow> core_node_msg_block_data \<Rightarrow> core_node_event list
    \<Rightarrow> error + core_node_parsed_tx_message option" where
  "sample_parseMessageTransaction chainId coreTx blockData allEvents =
    (if ctx_raw_tx coreTx = ''0xff'' then Inl (Error ''DecodeError'')
     else if ctx_raw_tx coreTx = ''0x00'' then Inr None
     else Inr (Some \<lparr> core_tx = coreTx,
                      parsed_tx_payload =
                        (if ctx_raw_tx coreTx = ''0x01'' then SmartContract ''hello'' ''(print 1)''
                         else TokenTransfer),
                      sender_address = ''SP1'',
                      ptx_microblock_hash = ctx_microblock_hash coreTx,
                      ptx_block_data = blockData \<rparr>))"

definition sample_tx1 :: core_node_tx_message where
  "sample_tx1 = \<lparr> ctx_raw_tx = ''0x80'', ctx_txid = ''T1'', ctx_tx_index = 0,
      ctx_contract_abi = ''null'', ctx_microblock_sequence = 0, ctx_microblock_hash = '''',
      ctx_microblock_parent_hash = '''' \<rparr>"

definition sample_tx2 :: core_node_tx_message where
  "sample_tx2 = \<lparr> ctx_raw_tx = ''0x01'', ctx_txid = ''T2'', ctx_tx_index = 1,
      ctx_contract_abi = ''{}'', ctx_microblock_sequence = 0, ctx_microblock_hash = '''',
      ctx_microblock_parent_hash = '''' \<rparr>"

definition sample_bad_tx :: core_node_tx_message where
  "sample_bad_tx = \<lparr> ctx_raw_tx = ''0xff'', ctx_txid = ''T3'', ctx_tx_index = 2,
      ctx_contract_abi = ''null'', ctx_microblock_sequence = 0, ctx_microblock_hash = '''',
      ctx_microblock_parent_hash = '''' \<rparr>"

text \<open>Four committed events with the block-relative indexes 3 (T2), 0 (T1), 2 (T2) and
  1 (T1), and an event that is not committed.\<close>

definition sample_events :: "core_node_event list" where
  "sample_events =
    [\<lparr> txid = ''T2'', ev_event_index = 3, committed = True,
        ev_type = StxTransferEvent ''SP1'' ''SP2'' ''100'' \<rparr>,
     \<lparr> txid = ''T1'', ev_event_index = 0, committed = True,
        ev_type = StxMintEvent ''SP1'' ''5'' \<rparr>,
     \<lparr> txid = ''T2'', ev_event_index = 2, committed = True,
        ev_type = ContractEvent ''SP1.hello'' ''print'' ''0x01'' \<rparr>,
     \<lparr> txid = ''T1'', ev_event_index = 1, committed = True,
        ev_type = FtMintEvent ''SP1'' ''SP1.coin::coin'' ''7'' \<rparr>,
     \<lparr> txid = ''T1'', ev_event_index = 4, committed = False,
        ev_type = NftMintEvent ''SP1'' ''SP1.art::art'' ''0x02'' \<rparr>]"

definition sample_block_message :: core_node_block_message where
  "sample_block_message =
    \<lparr> msg_block_hash = ''0xb1'', msg_block_height = 7, msg_burn_block_time = 1600000000,
      msg_burn_block_hash = ''0xbb'', msg_burn_block_height = 70, msg_miner_txid = ''0xaa'',
      msg_index_block_hash = ''0x1b'', msg_parent_index_block_hash = ''0x1a'',
      msg_parent_block_hash = ''0xb0'', msg_parent_microblock = ''0x00'',
      msg_parent_microblock_sequence = 0, msg_parent_burn_block_hash = ''0xba'',
      msg_parent_burn_block_height = 69, msg_parent_burn_block_timestamp = 1599999000,
      msg_events = sample_events, msg_transactions = [sample_tx1, sample_tx2],
      matured_miner_rewards =
        [\<lparr> from_stacks_block_hash = ''0xa0'', from_index_consensus_hash = ''0xa1'',
            mmr_recipient = ''SP9'', mmr_coinbase_amount = ''1000'', mmr_tx_fees_anchored = ''1'',
            mmr_tx_fees_streamed_confirmed = ''2'', mmr_tx_fees_streamed_produced = ''3'' \<rparr>] \<rparr>"

definition sample_bad_block_message :: core_node_block_message where
  "sample_bad_block_message =
    sample_block_message\<lparr> msg_transactions := [sample_tx1, sample_bad_tx, sample_tx2] \<rparr>"

definition sample_microblock_message :: core_node_microblock_message where
  "sample_microblock_message =
    \<lparr> mbm_parent_index_block_hash = ''0x1a'', mbm_burn_block_hash = ''0xba'',
      mbm_burn_block_height = 69, mbm_burn_block_timestamp = 1599999000,
      mbm_transactions = [sample_tx1, sample_tx2], mbm_events = sample_events \<rparr>"

definition sample_bad_microblock_message :: core_node_microblock_message where
  "sample_bad_microblock_message =
    sample_microblock_message\<lparr> mbm_transactions := [sample_bad_tx, sample_tx1] \<rparr>"

text \<open>Two reward recipients and three reward slot holders.\<close>

definition sample_burn_block_message :: core_node_burn_block_message where
  "sample_burn_block_message =
    \<lparr> burn_block_hash = ''0xbb'', burn_block_height = 70, burn_amount = ''12'',
      reward_recipients = [\<lparr> recipient = ''A'', amt = ''5'' \<rparr>, \<lparr> recipient = ''B'', amt = ''7'' \<rparr>],
      reward_slot_holders = [''A'', ''B'', ''C''] \<rparr>"

definition sample_helpers :: helpers where
  "sample_helpers =
    \<lparr> hexToBuffer = (\<lambda>s. if take 2 s = ''0x'' then Inr (drop 2 s) else Inl (Error ''invalid hex'')),
      BigInt = (\<lambda>s. decimal s 0),
      Number = (\<lambda>s. case decimal s 0 of Inl e \<Rightarrow> None | Inr n \<Rightarrow> Some n),
      JSON_stringify = (\<lambda>s. s),
      inspect = txid,
      parseArgBoolean = (\<lambda>v. case v of
          None \<Rightarrow> Inr False
        | Some s \<Rightarrow> if s = ''1'' then Inr True else if s = ''0'' then Inr False
                    else Inl (Error ''Cannot parse boolean'')),
      createDbTxFromCoreMsg = (\<lambda>p. Inr \<lparr> dbtx_tx_id = ctx_txid (core_tx p),
                                            dbtx_tx_index = ctx_tx_index (core_tx p),
                                            event_count = 0 \<rparr>),
      parseMessageTransaction = sample_parseMessageTransaction,
      parseMicroblocksFromTxs = (\<lambda>parentIndexBlockHash transactions parentBurnBlock. Inr []),
      parseNameRenewalWithNoZonefileHashFromContractCall = (\<lambda>p c. Inr None),
      parseNameFromContractEvent = (\<lambda>e p es bh c. Inr None),
      parseNamespaceFromContractEvent = (\<lambda>e p bh. Inr None),
      decodeMempoolTx = Inr,
      createDbMempoolTxFromCoreMsg = (\<lambda>d b r. Inr d),
      getTxDbStatus = Inr,
      isBnsContractIdentifier = (\<lambda>c. False),
      decodeClarityValue = (\<lambda>s. Inl (Error ''not a tuple'')),
      toString_utf8 = (\<lambda>b. b),
      parseInt = (\<lambda>s. case decimal s 0 of Inl e \<Rightarrow> None | Inr n \<Rightarrow> Some n),
      now = 1600000000,
      express_match = (\<lambda>route path. route = path),
      body_as_block = (\<lambda>b. if b = ''block'' then Inr sample_block_message
                            else Inl (Error ''TypeError'')),
      body_as_burn_block = (\<lambda>b. if b = ''burn'' then Inr sample_burn_block_message
                                 else Inl (Error ''TypeError'')),
      body_as_mempool_txs = (\<lambda>b. Inl (Error ''TypeError'')),
      body_as_drop_mempool_tx = (\<lambda>b. Inl (Error ''TypeError'')),
      body_as_attachments = (\<lambda>b. Inl (Error ''TypeError'')),
      body_as_microblock = (\<lambda>b. if b = ''microblock'' then Inr sample_microblock_message
                                 else Inl (Error ''TypeError'')) \<rparr>"

text \<open>The transactions of the sample messages as the sample parser returns them for an
  anchor block.\<close>

definition sample_parsedTxs :: "core_node_parsed_tx_message list" where
  "sample_parsedTxs =
    [\<lparr> core_tx = sample_tx1, parsed_tx_payload = TokenTransfer, sender_address = ''SP1'',
        ptx_microblock_hash = '''', ptx_block_data = block_blockData sample_block_message \<rparr>,
     \<lparr> core_tx = sample_tx2, parsed_tx_payload = SmartContract ''hello'' ''(print 1)'',
        sender_address = ''SP1'', ptx_microblock_hash = '''',
        ptx_block_data = block_blockData sample_block_message \<rparr>]"

text \<open>A store that accepts every call, and one that rejects every call.\<close>

definition accepting_store :: data_store where
  "accepting_store log c = None"

definition rejecting_store :: data_store where
  "rejecting_store log c = Some (Error ''connection refused'')"

text \<open>The bundle expected for the sample transactions and events at block height 7: T1 keeps
  the indexes 0 and 1; the events of T2, at the block-relative indexes 2 and 3, are
  renumbered 0 and 1; the uncommitted event is absent.\<close>

definition sample_bundle :: "db_event data_store_tx_event_data list" where
  "sample_bundle =
    [\<lparr> tx = \<lparr> dbtx_tx_id = ''T1'', dbtx_tx_index = 0, event_count = 2 \<rparr>,
        stxEvents = [\<lparr> event_index = 0, tx_id = ''T1'', tx_index = 0, block_height = 7,
                       canonical = True, detail = StxAsset Mint None (Some ''SP1'') 5 \<rparr>],
        stxLockEvents = [],
        ftEvents = [\<lparr> event_index = 1, tx_id = ''T1'', tx_index = 0, block_height = 7,
                      canonical = True,
                      detail = FungibleTokenAsset Mint None (Some ''SP1'') ''SP1.coin::coin'' 7 \<rparr>],
        nftEvents = [], contractLogEvents = [], smartContracts = [], names = [], namespaces = [] \<rparr>,
     \<lparr> tx = \<lparr> dbtx_tx_id = ''T2'', dbtx_tx_index = 1, event_count = 2 \<rparr>,
        stxEvents = [\<lparr> event_index = 1, tx_id = ''T2'', tx_index = 1, block_height = 7,
                       canonical = True,
                       detail = StxAsset Transfer (Some ''SP1'') (Some ''SP2'') 100 \<rparr>],
        stxLockEvents = [], ftEvents = [], nftEvents = [],
        contractLogEvents = [\<lparr> event_index = 0, tx_id = ''T2'', tx_index = 1, block_height = 7,
                               canonical = True,
                               detail = SmartContractLog ''SP1.hello'' ''print'' ''01'' \<rparr>],
        smartContracts = [\<lparr> sc_tx_id = ''T2'', contract_id = ''SP1.hello'', sc_block_height = 7,
                            source_code = ''(print 1)'', abi = ''{}'', sc_canonical = True \<rparr>],
        names = [], namespaces = [] \<rparr>]"

definition sample_blockData :: tx_event_block_data where
  "sample_blockData = \<lparr> ted_block_height = 7, ted_index_block_hash = ''0x1b'' \<rparr>"

text \<open>The bundle that the sample transactions and events give in a microblock: the one above
  at block height \<open>-1\<close>.\<close>

definition sample_microblock_bundle :: "db_event data_store_tx_event_data list" where
  "sample_microblock_bundle =
    [\<lparr> tx = \<lparr> dbtx_tx_id = ''T1'', dbtx_tx_index = 0, event_count = 2 \<rparr>,
        stxEvents = [\<lparr> event_index = 0, tx_id = ''T1'', tx_index = 0, block_height = - 1,
                       canonical = True, detail = StxAsset Mint None (Some ''SP1'') 5 \<rparr>],
        stxLockEvents = [],
        ftEvents = [\<lparr> event_index = 1, tx_id = ''T1'', tx_index = 0, block_height = - 1,
                      canonical = True,
                      detail = FungibleTokenAsset Mint None (Some ''SP1'') ''SP1.coin::coin'' 7 \<rparr>],
        nftEvents = [], contractLogEvents = [], smartContracts = [], names = [], namespaces = [] \<rparr>,
     \<lparr> tx = \<lparr> dbtx_tx_id = ''T2'', dbtx_tx_index = 1, event_count = 2 \<rparr>,
        stxEvents = [\<lparr> event_index = 1, tx_id = ''T2'', tx_index = 1, block_height = - 1,
                       canonical = True,
                       detail = StxAsset Transfer (Some ''SP1'') (Some ''SP2'') 100 \<rparr>],
        stxLockEvents = [], ftEvents = [], nftEvents = [],
        contractLogEvents = [\<lparr> event_index = 0, tx_id = ''T2'', tx_index = 1, block_height = - 1,
                               canonical = True,
                               detail = SmartContractLog ''SP1.hello'' ''print'' ''01'' \<rparr>],
        smartContracts = [\<lparr> sc_tx_id = ''T2'', contract_id = ''SP1.hello'', sc_block_height = - 1,
                            source_code = ''(print 1)'', abi = ''{}'', sc_canonical = True \<rparr>],
        names = [], namespaces = [] \<rparr>]"

text \<open>Two more sample parsers: one that throws exactly when the block data has the five
  values \<^verbatim>\<open>burn_block_time = -1\<close>, \<^verbatim>\<open>index_block_hash = ""\<close>, \<^verbatim>\<open>block_hash = ""\<close>,
  \<^verbatim>\<open>block_height = -1\<close> and \<^verbatim>\<open>parent_block_hash = ""\<close>, and one that throws exactly when
  it has not.\<close>

definition sentinel_rejecting_parser ::
  "chain_id \<Rightarrow> core_node_tx_message \<Rightarrow> core_node_msg_block_data \<Rightarrow> core_node_event list
    \<Rightarrow> error + core_node_parsed_tx_message option" where
  "sentinel_rejecting_parser chainId coreTx blockData allEvents =
    (if bd_burn_block_time blockData = - 1 \<and> bd_index_block_hash blockData = '''' \<and>
        bd_block_hash blockData = '''' \<and> bd_block_height blockData = - 1 \<and>
        bd_parent_block_hash blockData = ''''
     then Inl (Error ''sentinel block data'')
     else sample_parseMessageTransaction chainId coreTx blockData allEvents)"

definition sentinel_only_parser ::
  "chain_id \<Rightarrow> core_node_tx_message \<Rightarrow> core_node_msg_block_data \<Rightarrow> core_node_event list
    \<Rightarrow> error + core_node_parsed_tx_message option" where
  "sentinel_only_parser chainId coreTx blockData allEvents =
    (if bd_burn_block_time blockData = - 1 \<and> bd_index_block_hash blockData = '''' \<and>
        bd_block_hash blockData = '''' \<and> bd_block_height blockData = - 1 \<and>
        bd_parent_block_hash blockData = ''''
     then sample_parseMessageTransaction chainId coreTx blockData allEvents
     else Inl (Error ''anchor block data''))"

section \<open>Auxiliary lemmas\<close>

subsection \<open>Renumbering and normalization\<close>

lemma renumber_length: "length (renumber rs i objs) = length objs"
  by (induction rs arbitrary: i objs) auto

lemma renumber_other: "r \<notin> set rs \<Longrightarrow> renumber rs i objs ! r = objs ! r"
  by (induction rs arbitrary: i objs) auto

lemma renumber_nth:
  "distinct rs \<Longrightarrow> \<forall>r\<in>set rs. r < length objs \<Longrightarrow> j < length rs \<Longrightarrow>
   renumber rs i objs ! (rs ! j) = (objs ! (rs ! j))\<lparr> event_index := int (i + j) \<rparr>"
proof (induction rs arbitrary: i objs j)
  case Nil
  then show ?case by simp
next
  case (Cons r rs)
  show ?case
  proof (cases j)
    case 0
    with Cons.prems show ?thesis by (simp add: renumber_other)
  next
    case (Suc j')
    with Cons.prems have neq: "rs ! j' \<noteq> r" by auto
    from Cons.prems Suc have
      "renumber rs (Suc i) (objs[r := (objs ! r)\<lparr> event_index := int i \<rparr>]) ! (rs ! j') =
       ((objs[r := (objs ! r)\<lparr> event_index := int i \<rparr>]) ! (rs ! j'))\<lparr> event_index := int (Suc i + j') \<rparr>"
      by (intro Cons.IH) auto
    with neq Suc show ?thesis by simp
  qed
qed

lemma renumber_only_index:
  "r < length objs \<Longrightarrow> \<exists>n. renumber rs i objs ! r = (objs ! r)\<lparr> event_index := n \<rparr>"
proof (induction rs arbitrary: i objs)
  case Nil
  have "objs ! r = (objs ! r)\<lparr> event_index := event_index (objs ! r) \<rparr>" by simp
  then show ?case by (metis renumber.simps(1))
next
  case (Cons a rs)
  let ?o = "objs[a := (objs ! a)\<lparr> event_index := int i \<rparr>]"
  from Cons.prems have "r < length ?o" by simp
  from Cons.IH[OF this, of "Suc i"] obtain n where
    n: "renumber rs (Suc i) ?o ! r = (?o ! r)\<lparr> event_index := n \<rparr>" by blast
  have "(?o ! r)\<lparr> event_index := n \<rparr> = (objs ! r)\<lparr> event_index := n \<rparr>"
    using Cons.prems by (cases "a = r") auto
  with n show ?case by auto
qed

lemma sort_key_cong_set:
  "(\<And>x. x \<in> set xs \<Longrightarrow> f x = g x) \<Longrightarrow> sort_key f xs = sort_key g xs"
proof (induction xs)
  case Nil
  then show ?case by simp
next
  case (Cons a xs)
  have ins: "\<And>ys. set ys \<subseteq> set xs \<Longrightarrow> insort_key f a ys = insort_key g a ys"
  proof -
    fix ys show "set ys \<subseteq> set xs \<Longrightarrow> insort_key f a ys = insort_key g a ys"
      using Cons.prems by (induction ys) auto
  qed
  have "sort_key f xs = sort_key g xs" using Cons by auto
  moreover have "set (sort_key g xs) \<subseteq> set xs" by simp
  ultimately show ?case using ins by simp
qed

lemma set_sortedEvents: "set (sortedEvents objs t) = set (flat t)"
  by (simp add: sortedEvents_def)

lemma length_sortedEvents: "length (sortedEvents objs t) = length (flat t)"
  by (simp add: sortedEvents_def)

lemma distinct_sortedEvents: "distinct (sortedEvents objs t) = distinct (flat t)"
  by (simp add: sortedEvents_def)

lemma mset_sortedEvents: "mset (sortedEvents objs t) = mset (flat t)"
  by (simp add: sortedEvents_def)

lemma sortedEvents_cong:
  "(\<And>r. r \<in> set (flat t) \<Longrightarrow> objs1 ! r = objs ! r) \<Longrightarrow> sortedEvents objs1 t = sortedEvents objs t"
  unfolding sortedEvents_def by (rule sort_key_cong_set) simp

lemma event_index_update_self: "\<exists>n. (d :: db_event) = d\<lparr> event_index := n \<rparr>"
  by (rule exI[of _ "event_index d"]) simp

lemma normalize_spec:
  "distinct (concat (map flat D)) \<Longrightarrow> \<forall>r\<in>set (concat (map flat D)). r < length H \<Longrightarrow>
   normalizeEventIndexes D H = (D', H') \<Longrightarrow>
   length D' = length D \<and> length H' = length H \<and>
   (\<forall>i<length D. D' ! i = (D ! i)\<lparr> tx := (tx (D ! i))\<lparr> event_count := int (length (flat (D ! i))) \<rparr> \<rparr>) \<and>
   (\<forall>i<length D. map (\<lambda>r. event_index (H' ! r)) (sortedEvents H (D ! i)) =
                    map int [0..<length (flat (D ! i))]) \<and>
   (\<forall>r. r \<notin> set (concat (map flat D)) \<longrightarrow> H' ! r = H ! r) \<and>
   (\<forall>r<length H. \<exists>n. H' ! r = (H ! r)\<lparr> event_index := n \<rparr>)"
proof (induction D arbitrary: H D' H')
  case Nil
  then show ?case using event_index_update_self by auto
next
  case (Cons t ts)
  let ?S = "sortedEvents H t"
  let ?H1 = "renumber ?S 0 H"
  let ?t1 = "t\<lparr> tx := (tx t)\<lparr> event_count := int (length ?S) \<rparr> \<rparr>"
  obtain ts1 H2 where rec: "normalizeEventIndexes ts ?H1 = (ts1, H2)" by (cases "normalizeEventIndexes ts ?H1")
  with Cons.prems(3) have D': "D' = ?t1 # ts1" and H': "H' = H2"
    by (simp_all add: Let_def)
  from Cons.prems(1) have dt: "distinct (flat t)" and dts: "distinct (concat (map flat ts))"
    and disj: "set (flat t) \<inter> set (concat (map flat ts)) = {}" by simp_all
  from Cons.prems(2) have bt: "\<forall>r\<in>set (flat t). r < length H"
    and bts: "\<forall>r\<in>set (concat (map flat ts)). r < length ?H1"
    by (simp_all add: renumber_length)
  note IH = Cons.IH[OF dts bts rec]
  have len1: "length ?H1 = length H" by (simp add: renumber_length)
  have c1: "length D' = length (t # ts)" using IH D' by simp
  have c2: "length H' = length H" using IH H' len1 by simp
  have c3: "\<forall>i<length (t # ts). D' ! i =
      ((t # ts) ! i)\<lparr> tx := (tx ((t # ts) ! i))\<lparr> event_count := int (length (flat ((t # ts) ! i))) \<rparr> \<rparr>"
  proof (intro allI impI)
    fix i assume "i < length (t # ts)"
    then show "D' ! i =
      ((t # ts) ! i)\<lparr> tx := (tx ((t # ts) ! i))\<lparr> event_count := int (length (flat ((t # ts) ! i))) \<rparr> \<rparr>"
      using IH D' by (cases i) (simp_all add: length_sortedEvents)
  qed
  have frame1: "\<And>r. r \<notin> set (flat t) \<Longrightarrow> ?H1 ! r = H ! r"
    by (simp add: renumber_other set_sortedEvents)
  have frame2: "\<And>r. r \<notin> set (concat (map flat ts)) \<Longrightarrow> H2 ! r = ?H1 ! r"
    using IH by blast
  have c4: "\<forall>i<length (t # ts). map (\<lambda>r. event_index (H' ! r)) (sortedEvents H ((t # ts) ! i)) =
                    map int [0..<length (flat ((t # ts) ! i))]"
  proof (intro allI impI)
    fix i assume i: "i < length (t # ts)"
    show "map (\<lambda>r. event_index (H' ! r)) (sortedEvents H ((t # ts) ! i)) =
                    map int [0..<length (flat ((t # ts) ! i))]"
    proof (cases i)
      case 0
      have "map (\<lambda>r. event_index (H2 ! r)) ?S = map int [0..<length (flat t)]"
      proof (rule nth_equalityI)
        show "length (map (\<lambda>r. event_index (H2 ! r)) ?S) = length (map int [0..<length (flat t)])"
          by (simp add: length_sortedEvents)
      next
        fix j assume "j < length (map (\<lambda>r. event_index (H2 ! r)) ?S)"
        then have j: "j < length ?S" by simp
        then have mem: "?S ! j \<in> set (flat t)" using set_sortedEvents nth_mem by blast
        with disj have "?S ! j \<notin> set (concat (map flat ts))" by blast
        then have "H2 ! (?S ! j) = ?H1 ! (?S ! j)" by (rule frame2)
        also have "\<dots> = (H ! (?S ! j))\<lparr> event_index := int (0 + j) \<rparr>"
          using dt bt j by (intro renumber_nth) (simp_all add: distinct_sortedEvents set_sortedEvents)
        finally show "map (\<lambda>r. event_index (H2 ! r)) ?S ! j = map int [0..<length (flat t)] ! j"
          using j by (simp add: length_sortedEvents)
      qed
      with 0 H' show ?thesis by simp
    next
      case (Suc i')
      with i have i': "i' < length ts" by simp
      have eq: "sortedEvents ?H1 (ts ! i') = sortedEvents H (ts ! i')"
      proof (rule sortedEvents_cong)
        fix r assume "r \<in> set (flat (ts ! i'))"
        with i' have "r \<in> set (concat (map flat ts))" by auto
        with disj have "r \<notin> set (flat t)" by blast
        then show "?H1 ! r = H ! r" by (rule frame1)
      qed
      from IH i' have "map (\<lambda>r. event_index (H2 ! r)) (sortedEvents ?H1 (ts ! i')) =
          map int [0..<length (flat (ts ! i'))]" by blast
      then show ?thesis unfolding eq using Suc H' by simp
    qed
  qed
  have c5: "\<forall>r. r \<notin> set (concat (map flat (t # ts))) \<longrightarrow> H' ! r = H ! r"
    using frame1 frame2 H' by simp
  have c6: "\<forall>r<length H. \<exists>n. H' ! r = (H ! r)\<lparr> event_index := n \<rparr>"
  proof (intro allI impI)
    fix r assume r: "r < length H"
    then obtain n1 where n1: "?H1 ! r = (H ! r)\<lparr> event_index := n1 \<rparr>"
      using renumber_only_index by blast
    from r len1 IH obtain n2 where "H2 ! r = (?H1 ! r)\<lparr> event_index := n2 \<rparr>" by metis
    with n1 H' have "H' ! r = (H ! r)\<lparr> event_index := n2 \<rparr>" by simp
    then show "\<exists>n. H' ! r = (H ! r)\<lparr> event_index := n \<rparr>" ..
  qed
  from c1 c2 c3 c4 c5 c6 show ?case by blast
qed

subsection \<open>Scattering the events\<close>

lemma findIndex_Some:
  "findIndex P xs = Some i \<Longrightarrow> i < length xs \<and> P (xs ! i)"
proof (induction xs arbitrary: i)
  case Nil
  then show ?case by simp
next
  case (Cons a xs)
  then show ?case by (cases "P a") auto
qed

lemma findIndex_None: "findIndex P xs = None \<longleftrightarrow> (\<forall>x\<in>set xs. \<not> P x)"
  by (induction xs) auto

lemma findIndex_map: "findIndex (\<lambda>t. P (f t)) xs = findIndex P (map f xs)"
  by (induction xs) auto

lemma mset_flat_push: "mset (flat (push b r t)) = mset (flat t) + {#r#}"
  by (cases b) (simp_all add: flat_def)

lemma tx_push: "tx (push b r t) = tx t"
  by (cases b) simp_all

lemma smartContracts_push: "smartContracts (push b r t) = smartContracts t"
  by (cases b) simp_all

lemma mset_concat_update:
  "i < length xs \<Longrightarrow> mset (concat (xs[i := y])) + mset (xs ! i) = mset (concat xs) + mset y"
proof (induction xs arbitrary: i)
  case Nil
  then show ?case by simp
next
  case (Cons a xs)
  show ?case
  proof (cases i)
    case 0
    then show ?thesis by simp
  next
    case (Suc j)
    with Cons.prems have "j < length xs" by simp
    from Cons.IH[OF this] Suc show ?thesis by (simp add: ac_simps)
  qed
qed

lemma map_update_same:
  "f y = f (xs ! i) \<Longrightarrow> map f (xs[i := y]) = map f xs"
  by (cases "i < length xs") (simp_all add: map_update list_update_same_conv list_update_beyond)

lemma contract_event_bns_frame:
  assumes "contract_event_bns h parsedTxs events blockData chainId event i D = Inr D'"
  shows "map flat D' = map flat D \<and> map tx D' = map tx D \<and> map smartContracts D' = map smartContracts D"
proof -
  have a: "\<And>xs n. map flat (xs[i := (xs ! i)\<lparr> names := n \<rparr>]) = map flat xs"
    by (rule map_update_same) (simp add: flat_def)
  have b: "\<And>xs n. map flat (xs[i := (xs ! i)\<lparr> namespaces := n \<rparr>]) = map flat xs"
    by (rule map_update_same) (simp add: flat_def)
  have c: "\<And>xs n. map tx (xs[i := (xs ! i)\<lparr> names := n \<rparr>]) = map tx xs"
    by (rule map_update_same) simp
  have d: "\<And>xs n. map tx (xs[i := (xs ! i)\<lparr> namespaces := n \<rparr>]) = map tx xs"
    by (rule map_update_same) simp
  have e: "\<And>xs n. map smartContracts (xs[i := (xs ! i)\<lparr> names := n \<rparr>]) = map smartContracts xs"
    by (rule map_update_same) simp
  have f: "\<And>xs n. map smartContracts (xs[i := (xs ! i)\<lparr> namespaces := n \<rparr>]) = map smartContracts xs"
    by (rule map_update_same) simp
  from assms show ?thesis
    unfolding contract_event_bns_def Let_def
    by (auto split: option.splits sum.splits simp: a b c d e f simp del: list_update_overwrite)
qed

lemma scatter_event_uncommitted:
  "\<not> committed event \<Longrightarrow> scatter_event h parsedTxs events blockData chainId event st = Inr st"
  by (cases st) (simp add: scatter_event_def)

lemma scatter_event_committed:
  assumes "scatter_event h parsedTxs events blockData chainId event (D, H) = Inr (D', H')"
    and "committed event"
  shows "\<exists>i b d. findIndex (\<lambda>entry. dbtx_tx_id (tx entry) = txid event) D = Some i \<and> i < length D \<and>
      event_entry h (\<lambda>x. \<lparr> event_index = ev_event_index event, tx_id = txid event,
          tx_index = dbtx_tx_index (tx (D ! i)), block_height = ted_block_height blockData,
          canonical = True, detail = x \<rparr>) event = Inr (b, d) \<and>
      H' = H @ [d] \<and>
      map flat D' = (map flat D)[i := flat (push b (length H) (D ! i))] \<and>
      map tx D' = map tx D \<and> map smartContracts D' = map smartContracts D"
proof -
  from assms obtain i where i: "findIndex (\<lambda>entry. dbtx_tx_id (tx entry) = txid event) D = Some i"
    by (auto simp: scatter_event_def split: option.splits)
  then have il: "i < length D" using findIndex_Some by fastforce
  let ?base = "\<lambda>x. \<lparr> event_index = ev_event_index event, tx_id = txid event,
          tx_index = dbtx_tx_index (tx (D ! i)), block_height = ted_block_height blockData,
          canonical = True, detail = x \<rparr>"
  from assms i obtain b d where bd: "event_entry h ?base event = Inr (b, d)"
    by (auto simp: scatter_event_def Let_def split: sum.splits simp del: event_entry.simps)
  let ?D1 = "D[i := push b (length H) (D ! i)]"
  have D1: "map flat ?D1 = (map flat D)[i := flat (push b (length H) (D ! i))]"
    "map tx ?D1 = map tx D" "map smartContracts ?D1 = map smartContracts D"
  proof -
    show "map flat ?D1 = (map flat D)[i := flat (push b (length H) (D ! i))]"
      by (simp add: map_update)
    show "map tx ?D1 = map tx D"
      by (rule map_update_same) (rule tx_push)
    show "map smartContracts ?D1 = map smartContracts D"
      by (rule map_update_same) (rule smartContracts_push)
  qed
  from assms i bd have H': "H' = H @ [d]"
    by (auto simp: scatter_event_def Let_def split: sum.splits if_splits simp del: event_entry.simps)
  have "map flat D' = map flat ?D1 \<and> map tx D' = map tx ?D1 \<and> map smartContracts D' = map smartContracts ?D1"
  proof (cases "b = ContractLogEvents")
    case True
    with assms i bd have "contract_event_bns h parsedTxs events blockData chainId event i ?D1 = Inr D'"
      by (auto simp: scatter_event_def Let_def split: sum.splits simp del: event_entry.simps)
    then show ?thesis by (rule contract_event_bns_frame)
  next
    case False
    with assms i bd have "D' = ?D1"
      by (auto simp: scatter_event_def Let_def split: sum.splits simp del: event_entry.simps)
    then show ?thesis by simp
  qed
  with D1 i il bd H' show ?thesis by (intro exI[of _ i] exI[of _ b] exI[of _ d]) simp
qed

lemma owner_cong:
  "map tx D1 = map tx D \<Longrightarrow>
   findIndex (\<lambda>entry. dbtx_tx_id (tx entry) = txid e) D1 =
   findIndex (\<lambda>entry. dbtx_tx_id (tx entry) = txid e) D"
  using findIndex_map[where f = tx and P = "\<lambda>x. dbtx_tx_id x = txid e"] by metis

lemma scatter_event_frame:
  assumes "scatter_event h parsedTxs events blockData chainId event (D, H) = Inr (D', H')"
  shows "length D' = length D \<and> map tx D' = map tx D \<and> map smartContracts D' = map smartContracts D"
proof (cases "committed event")
  case True
  from scatter_event_committed[OF assms True] have "map tx D' = map tx D"
    and "map smartContracts D' = map smartContracts D" by auto
  then show ?thesis using map_eq_imp_length_eq by blast
next
  case False
  with assms show ?thesis by (simp add: scatter_event_uncommitted)
qed

lemma scatter_frame:
  "scatter h parsedTxs events blockData chainId evs (D, H) = Inr (D', H') \<Longrightarrow>
   length D' = length D \<and> map tx D' = map tx D \<and> map smartContracts D' = map smartContracts D"
proof (induction evs arbitrary: D H)
  case Nil
  then show ?case by simp
next
  case (Cons ev rest)
  then obtain D1 H1 where
    s1: "scatter_event h parsedTxs events blockData chainId ev (D, H) = Inr (D1, H1)" and
    s2: "scatter h parsedTxs events blockData chainId rest (D1, H1) = Inr (D', H')"
    by (auto split: sum.splits)
  from scatter_event_frame[OF s1] Cons.IH[OF s2] show ?case by simp
qed

lemma scatter_objs:
  "scatter h parsedTxs events blockData chainId evs (D, H) = Inr (D', H') \<Longrightarrow>
   length H' = length H + length (filter committed evs) \<and> take (length H) H' = H \<and>
   (\<forall>r. length H \<le> r \<and> r < length H' \<longrightarrow>
      (\<exists>e\<in>set evs. committed e \<and> (\<exists>b ti. event_entry h (\<lambda>x. \<lparr> event_index = ev_event_index e,
          tx_id = txid e, tx_index = ti, block_height = ted_block_height blockData,
          canonical = True, detail = x \<rparr>) e = Inr (b, H' ! r))))"
proof (induction evs arbitrary: D H)
  case Nil
  then show ?case by simp
next
  case (Cons ev rest)
  then obtain D1 H1 where
    s1: "scatter_event h parsedTxs events blockData chainId ev (D, H) = Inr (D1, H1)" and
    s2: "scatter h parsedTxs events blockData chainId rest (D1, H1) = Inr (D', H')"
    by (auto split: sum.splits)
  note IH = Cons.IH[OF s2]
  show ?case
  proof (cases "committed ev")
    case False
    with s1 have "D1 = D" "H1 = H" by (simp_all add: scatter_event_uncommitted)
    with IH False show ?thesis by auto
  next
    case True
    from scatter_event_committed[OF s1 True] obtain i b d where
      ee: "event_entry h (\<lambda>x. \<lparr> event_index = ev_event_index ev, tx_id = txid ev,
          tx_index = dbtx_tx_index (tx (D ! i)), block_height = ted_block_height blockData,
          canonical = True, detail = x \<rparr>) ev = Inr (b, d)" and H1: "H1 = H @ [d]" by blast
    from IH H1 True have len': "length H' = length H + length (filter committed (ev # rest))"
      by simp
    from IH have tk1: "take (length H1) H' = H1" by simp
    have "take (length H) (take (length H1) H') = take (length H) H'"
      using H1 by (simp add: min_def)
    with tk1 H1 have tk: "take (length H) H' = H" by simp
    have prov: "\<forall>r. length H \<le> r \<and> r < length H' \<longrightarrow>
      (\<exists>e\<in>set (ev # rest). committed e \<and> (\<exists>b ti. event_entry h (\<lambda>x. \<lparr> event_index = ev_event_index e,
          tx_id = txid e, tx_index = ti, block_height = ted_block_height blockData,
          canonical = True, detail = x \<rparr>) e = Inr (b, H' ! r)))"
    proof (intro allI impI)
      fix r assume r: "length H \<le> r \<and> r < length H'"
      show "\<exists>e\<in>set (ev # rest). committed e \<and> (\<exists>b ti. event_entry h (\<lambda>x. \<lparr> event_index = ev_event_index e,
          tx_id = txid e, tx_index = ti, block_height = ted_block_height blockData,
          canonical = True, detail = x \<rparr>) e = Inr (b, H' ! r))"
      proof (cases "r = length H")
        case True
        have "H' ! r = take (length H1) H' ! r" using True H1 by simp
        also have "\<dots> = d" using tk1 True H1 by simp
        finally have "H' ! r = d" .
        with ee \<open>committed ev\<close> show ?thesis by auto
      next
        case False
        with r H1 have "length H1 \<le> r \<and> r < length H'" by simp
        with IH obtain e where "e \<in> set rest" "committed e"
          "\<exists>b ti. event_entry h (\<lambda>x. \<lparr> event_index = ev_event_index e,
          tx_id = txid e, tx_index = ti, block_height = ted_block_height blockData,
          canonical = True, detail = x \<rparr>) e = Inr (b, H' ! r)" by blast
        then show ?thesis by auto
      qed
    qed
    from len' tk prov show ?thesis by blast
  qed
qed

lemma scatter_refs:
  "scatter h parsedTxs events blockData chainId evs (D, H) = Inr (D', H') \<Longrightarrow>
   mset (concat (map flat D')) = mset (concat (map flat D)) + mset [length H..<length H']"
proof (induction evs arbitrary: D H)
  case Nil
  then show ?case by simp
next
  case (Cons ev rest)
  then obtain D1 H1 where
    s1: "scatter_event h parsedTxs events blockData chainId ev (D, H) = Inr (D1, H1)" and
    s2: "scatter h parsedTxs events blockData chainId rest (D1, H1) = Inr (D', H')"
    by (auto split: sum.splits)
  note IH = Cons.IH[OF s2]
  show ?case
  proof (cases "committed ev")
    case False
    with s1 have "D1 = D" "H1 = H" by (simp_all add: scatter_event_uncommitted)
    with IH show ?thesis by simp
  next
    case True
    from scatter_event_committed[OF s1 True] obtain i b d where
      i: "i < length D" and H1: "H1 = H @ [d]" and
      fl: "map flat D1 = (map flat D)[i := flat (push b (length H) (D ! i))]" by blast
    from i have "mset (concat ((map flat D)[i := flat (push b (length H) (D ! i))])) + mset (map flat D ! i)
        = mset (concat (map flat D)) + mset (flat (push b (length H) (D ! i)))"
      by (intro mset_concat_update) simp
    with i fl have "mset (concat (map flat D1)) + mset (flat (D ! i))
        = mset (concat (map flat D)) + (mset (flat (D ! i)) + {#length H#})"
      by (simp add: mset_flat_push)
    then have step: "mset (concat (map flat D1)) = mset (concat (map flat D)) + {#length H#}"
      by (simp add: ac_simps)
    from scatter_objs[OF s2] H1 have "length H < length H'" by simp
    then have "mset [length H..<length H'] = {#length H#} + mset [length H1..<length H']"
      using H1 by (simp add: upt_conv_Cons)
    with IH step show ?thesis by (simp add: ac_simps)
  qed
qed

lemma scatter_owner_count:
  "scatter h parsedTxs events blockData chainId evs (D, H) = Inr (D', H') \<Longrightarrow> k < length D \<Longrightarrow>
   length (flat (D' ! k)) = length (flat (D ! k)) +
     length (filter (\<lambda>e. committed e \<and>
        findIndex (\<lambda>entry. dbtx_tx_id (tx entry) = txid e) D = Some k) evs)"
proof (induction evs arbitrary: D H)
  case Nil
  then show ?case by simp
next
  case (Cons ev rest)
  then obtain D1 H1 where
    s1: "scatter_event h parsedTxs events blockData chainId ev (D, H) = Inr (D1, H1)" and
    s2: "scatter h parsedTxs events blockData chainId rest (D1, H1) = Inr (D', H')"
    by (auto split: sum.splits)
  from scatter_event_frame[OF s1] have fr: "length D1 = length D" "map tx D1 = map tx D" by simp_all
  with Cons.prems have k1: "k < length D1" by simp
  have own: "\<And>e. findIndex (\<lambda>entry. dbtx_tx_id (tx entry) = txid e) D1 =
       findIndex (\<lambda>entry. dbtx_tx_id (tx entry) = txid e) D"
    using fr(2) by (rule owner_cong)
  from Cons.IH[OF s2 k1] have IH: "length (flat (D' ! k)) = length (flat (D1 ! k)) +
     length (filter (\<lambda>e. committed e \<and>
        findIndex (\<lambda>entry. dbtx_tx_id (tx entry) = txid e) D = Some k) rest)"
    by (simp add: own)
  show ?case
  proof (cases "committed ev")
    case False
    with s1 have "D1 = D" by (simp add: scatter_event_uncommitted)
    with IH False show ?thesis by simp
  next
    case True
    from scatter_event_committed[OF s1 True] obtain i b d where
      fi: "findIndex (\<lambda>entry. dbtx_tx_id (tx entry) = txid ev) D = Some i" and
      i: "i < length D" and
      fl: "map flat D1 = (map flat D)[i := flat (push b (length H) (D ! i))]" by blast
    have "flat (D1 ! k) = map flat D1 ! k" using k1 by simp
    also have "\<dots> = (map flat D)[i := flat (push b (length H) (D ! i))] ! k" using fl by simp
    finally have f1: "flat (D1 ! k) = (map flat D)[i := flat (push b (length H) (D ! i))] ! k" .
    have "length (flat (D1 ! k)) = length (flat (D ! k)) + (if k = i then 1 else 0)"
    proof (cases "k = i")
      case True
      with f1 i have "flat (D1 ! k) = flat (push b (length H) (D ! i))" by simp
      then have "size (mset (flat (D1 ! k))) = size (mset (flat (D ! i)) + {#length H#})"
        by (simp add: mset_flat_push)
      with True show ?thesis by simp
    next
      case False
      with f1 Cons.prems(2) show ?thesis by simp
    qed
    with IH True fi show ?thesis by auto
  qed
qed

subsection \<open>The state before and after the normalization\<close>

lemma array_map_spec:
  "array_map f xs i = Inr ys \<Longrightarrow>
   length ys = length xs \<and> (\<forall>j<length xs. f (xs ! j) (i + j) = Inr (ys ! j))"
proof (induction xs arbitrary: i ys)
  case Nil
  then show ?case by simp
next
  case (Cons x xs)
  from Cons.prems obtain y ys' where y: "f x i = Inr y" and r: "array_map f xs (Suc i) = Inr ys'"
    and ys: "ys = y # ys'" by (auto split: sum.splits)
  from Cons.IH[OF r] have len: "length ys' = length xs"
    and nth: "\<forall>j<length xs. f (xs ! j) (Suc i + j) = Inr (ys' ! j)" by simp_all
  have "\<forall>j<length (x # xs). f ((x # xs) ! j) (i + j) = Inr (ys ! j)"
  proof (intro allI impI)
    fix j assume "j < length (x # xs)"
    then show "f ((x # xs) ! j) (i + j) = Inr (ys ! j)"
      using y nth ys by (cases j) simp_all
  qed
  with len ys show ?case by simp
qed

lemma initDbTx_spec:
  "initDbTx h blockData chainId ptx = Inr t \<Longrightarrow>
   createDbTxFromCoreMsg h ptx = Inr (tx t) \<and> flat t = [] \<and>
   (\<forall>sc\<in>set (smartContracts t). sc_canonical sc)"
  unfolding initDbTx_def Let_def
  by (auto split: sum.splits tx_payload.splits option.splits simp: flat_def)

lemma event_entry_base:
  "event_entry h dbEvent e = Inr (b, d) \<Longrightarrow> \<exists>x. d = dbEvent x"
  by (auto split: core_node_event_type.splits sum.splits)

lemma event_entry_natural:
  "event_entry h dbEvent e = Inr (b, d) \<Longrightarrow> event_entry h (\<lambda>x. g (dbEvent x)) e = Inr (b, g d)"
  by (auto split: core_node_event_type.splits sum.splits)

lemma flat_resolve: "flat (resolve objs t) = map (\<lambda>r. objs ! r) (flat t)"
  by (simp add: flat_def resolve_def)

lemma tx_resolve: "tx (resolve objs t) = tx t"
  by (simp add: resolve_def)

lemma smartContracts_resolve: "smartContracts (resolve objs t) = smartContracts t"
  by (simp add: resolve_def)

lemma scattered_spec:
  assumes "scattered h parsedTxs events blockData chainId = Inr (D, H)"
  shows "mset (concat (map flat D)) = mset [0..<length H]"
    and "length H = length (filter committed events)"
    and "\<forall>r<length H. \<exists>e\<in>set events. committed e \<and>
          (\<exists>b ti. event_entry h (\<lambda>x. \<lparr> event_index = ev_event_index e,
          tx_id = txid e, tx_index = ti, block_height = ted_block_height blockData,
          canonical = True, detail = x \<rparr>) e = Inr (b, H ! r))"
    and "\<forall>k<length D. length (flat (D ! k)) =
          length (filter (\<lambda>e. committed e \<and>
            findIndex (\<lambda>entry. dbtx_tx_id (tx entry) = txid e) D = Some k) events)"
    and "\<forall>t\<in>set D. \<forall>sc\<in>set (smartContracts t). sc_canonical sc"
    and "length D = length parsedTxs"
    and "\<forall>j<length D. createDbTxFromCoreMsg h (parsedTxs ! j) = Inr (tx (D ! j))"
proof -
  from assms obtain D0 where
    a: "array_map (\<lambda>ptx index. initDbTx h blockData chainId ptx) parsedTxs 0 = Inr D0" and
    s: "scatter h parsedTxs events blockData chainId events (D0, []) = Inr (D, H)"
    by (auto simp: scattered_def split: sum.splits)
  from array_map_spec[OF a] have len0: "length D0 = length parsedTxs"
    and init: "\<forall>j<length parsedTxs. initDbTx h blockData chainId (parsedTxs ! j) = Inr (D0 ! j)"
    by simp_all
  have each: "\<forall>j<length D0. createDbTxFromCoreMsg h (parsedTxs ! j) = Inr (tx (D0 ! j)) \<and>
      flat (D0 ! j) = [] \<and> (\<forall>sc\<in>set (smartContracts (D0 ! j)). sc_canonical sc)"
    using init len0 initDbTx_spec by metis
  have empty0: "concat (map flat D0) = []"
    using each by (auto simp: in_set_conv_nth)
  from scatter_frame[OF s] have fr: "length D = length D0" "map tx D = map tx D0"
    "map smartContracts D = map smartContracts D0" by simp_all
  from scatter_refs[OF s] empty0 show "mset (concat (map flat D)) = mset [0..<length H]" by simp
  from scatter_objs[OF s] show "length H = length (filter committed events)" by simp
  from scatter_objs[OF s] show "\<forall>r<length H. \<exists>e\<in>set events. committed e \<and>
          (\<exists>b ti. event_entry h (\<lambda>x. \<lparr> event_index = ev_event_index e,
          tx_id = txid e, tx_index = ti, block_height = ted_block_height blockData,
          canonical = True, detail = x \<rparr>) e = Inr (b, H ! r))" by simp
  have own: "\<And>e. findIndex (\<lambda>entry. dbtx_tx_id (tx entry) = txid e) D =
       findIndex (\<lambda>entry. dbtx_tx_id (tx entry) = txid e) D0"
    using fr(2) by (rule owner_cong)
  show "\<forall>k<length D. length (flat (D ! k)) =
          length (filter (\<lambda>e. committed e \<and>
            findIndex (\<lambda>entry. dbtx_tx_id (tx entry) = txid e) D = Some k) events)"
  proof (intro allI impI)
    fix k assume "k < length D"
    with fr have k: "k < length D0" by simp
    from scatter_owner_count[OF s k] each k show "length (flat (D ! k)) =
          length (filter (\<lambda>e. committed e \<and>
            findIndex (\<lambda>entry. dbtx_tx_id (tx entry) = txid e) D = Some k) events)"
      by (simp add: own)
  qed
  show "\<forall>t\<in>set D. \<forall>sc\<in>set (smartContracts t). sc_canonical sc"
  proof
    fix t assume "t \<in> set D"
    then obtain j where j: "j < length D" "D ! j = t" by (auto simp: in_set_conv_nth)
    have "smartContracts (D ! j) = map smartContracts D ! j" using j by simp
    also have "\<dots> = smartContracts (D0 ! j)" using fr j by simp
    finally show "\<forall>sc\<in>set (smartContracts t). sc_canonical sc" using each j fr by auto
  qed
  show "length D = length parsedTxs" using fr len0 by simp
  show "\<forall>j<length D. createDbTxFromCoreMsg h (parsedTxs ! j) = Inr (tx (D ! j))"
  proof (intro allI impI)
    fix j assume j: "j < length D"
    have "tx (D ! j) = map tx D ! j" using j by simp
    also have "\<dots> = tx (D0 ! j)" using fr j by simp
    finally show "createDbTxFromCoreMsg h (parsedTxs ! j) = Inr (tx (D ! j))" using each j fr by simp
  qed
qed

lemma scattered_wf:
  assumes "scattered h parsedTxs events blockData chainId = Inr (D, H)"
  shows "distinct (concat (map flat D))" and "\<forall>r\<in>set (concat (map flat D)). r < length H"
proof -
  from scattered_spec(1)[OF assms] have m: "mset (concat (map flat D)) = mset [0..<length H]" .
  then show "distinct (concat (map flat D))"
    using distinct_upt mset_eq_imp_distinct_iff by blast
  from m have "set (concat (map flat D)) = set [0..<length H]" by (rule mset_eq_setD)
  then show "\<forall>r\<in>set (concat (map flat D)). r < length H" by simp
qed

lemma sorted_position_order:
  fixes key :: "nat \<Rightarrow> int" and pos :: "nat \<Rightarrow> int"
  assumes pos: "map pos (sort_key key rs) = map int [0..<length rs]"
    and a: "a \<in> set rs" and b: "b \<in> set rs" and lt: "key a < key b"
  shows "pos a < pos b"
proof -
  let ?S = "sort_key key rs"
  from a obtain ja where ja: "ja < length ?S" "?S ! ja = a"
    by (metis in_set_conv_nth set_sort)
  from b obtain jb where jb: "jb < length ?S" "?S ! jb = b"
    by (metis in_set_conv_nth set_sort)
  have p: "\<And>j. j < length ?S \<Longrightarrow> pos (?S ! j) = int j"
  proof -
    fix j assume j: "j < length ?S"
    then have "pos (?S ! j) = map pos ?S ! j" by simp
    also have "\<dots> = int j" using j by (simp add: pos)
    finally show "pos (?S ! j) = int j" .
  qed
  have "ja < jb"
  proof (rule ccontr)
    assume "\<not> ja < jb"
    then have le: "jb \<le> ja" by simp
    have "sorted (map key ?S)" by (rule sorted_sort_key)
    with le ja have "map key ?S ! jb \<le> map key ?S ! ja"
      by (intro sorted_nth_mono) simp_all
    with ja jb le have "key b \<le> key a" by simp
    with lt show False by simp
  qed
  with p ja jb show ?thesis by fastforce
qed

lemma findIndex_tx_id_cong:
  "map (\<lambda>t. dbtx_tx_id (tx t)) D1 = map (\<lambda>t. dbtx_tx_id (tx t)) D \<Longrightarrow>
   findIndex (\<lambda>entry. dbtx_tx_id (tx entry) = x) D1 =
   findIndex (\<lambda>entry. dbtx_tx_id (tx entry) = x) D"
  using findIndex_map[where f = "\<lambda>t. dbtx_tx_id (tx t)" and P = "\<lambda>y. y = x"] by metis

lemma parseDataStoreTxEventData_unfold:
  assumes "parseDataStoreTxEventData h parsedTxs events blockData chainId = Inr out"
  shows "\<exists>D H D2 H2. scattered h parsedTxs events blockData chainId = Inr (D, H) \<and>
     normalizeEventIndexes D H = (D2, H2) \<and> out = map (resolve H2) D2 \<and>
     beforeNormalization h parsedTxs events blockData chainId = Inr (map (resolve H) D)"
  using assms unfolding parseDataStoreTxEventData_def beforeNormalization_def
  by (auto split: sum.splits prod.splits)

text \<open>What the normalization does to the entry at position \<open>i\<close>, in terms of the state
  before it.\<close>

lemma normalized_entry:
  assumes sc: "scattered h parsedTxs events blockData chainId = Inr (D, H)"
    and nz: "normalizeEventIndexes D H = (D2, H2)" and i: "i < length D"
  shows "flat (resolve H2 (D2 ! i)) = map (\<lambda>r. H2 ! r) (flat (D ! i))"
    and "tx (resolve H2 (D2 ! i)) = (tx (D ! i))\<lparr> event_count := int (length (flat (D ! i))) \<rparr>"
    and "smartContracts (resolve H2 (D2 ! i)) = smartContracts (D ! i)"
    and "map (\<lambda>r. event_index (H2 ! r)) (sortedEvents H (D ! i)) = map int [0..<length (flat (D ! i))]"
    and "\<forall>r\<in>set (flat (D ! i)). r < length H \<and> (\<exists>n. H2 ! r = (H ! r)\<lparr> event_index := n \<rparr>)"
proof -
  note wf = scattered_wf[OF sc]
  note NS = normalize_spec[OF wf nz]
  from NS i have D2i: "D2 ! i = (D ! i)\<lparr> tx := (tx (D ! i))\<lparr> event_count := int (length (flat (D ! i))) \<rparr> \<rparr>"
    by blast
  then have fl: "flat (D2 ! i) = flat (D ! i)" by (simp add: flat_def)
  show "flat (resolve H2 (D2 ! i)) = map (\<lambda>r. H2 ! r) (flat (D ! i))"
    by (simp add: flat_resolve fl)
  show "tx (resolve H2 (D2 ! i)) = (tx (D ! i))\<lparr> event_count := int (length (flat (D ! i))) \<rparr>"
    by (simp add: tx_resolve D2i)
  show "smartContracts (resolve H2 (D2 ! i)) = smartContracts (D ! i)"
    by (simp add: smartContracts_resolve D2i)
  from NS i show "map (\<lambda>r. event_index (H2 ! r)) (sortedEvents H (D ! i)) = map int [0..<length (flat (D ! i))]"
    by blast
  show "\<forall>r\<in>set (flat (D ! i)). r < length H \<and> (\<exists>n. H2 ! r = (H ! r)\<lparr> event_index := n \<rparr>)"
  proof
    fix r assume "r \<in> set (flat (D ! i))"
    with i have "r \<in> set (concat (map flat D))" by auto
    with wf have r: "r < length H" by blast
    with NS show "r < length H \<and> (\<exists>n. H2 ! r = (H ! r)\<lparr> event_index := n \<rparr>)" by blast
  qed
qed

lemma parseDataStoreTxEventData_events:
  assumes "parseDataStoreTxEventData h parsedTxs events blockData chainId = Inr out"
    and t: "t \<in> set out" and d: "d \<in> set (flat t)"
  shows "\<exists>e\<in>set events. committed e \<and>
    (\<exists>b. event_entry h (\<lambda>x. \<lparr> event_index = event_index d, tx_id = txid e,
        tx_index = tx_index d, block_height = ted_block_height blockData,
        canonical = True, detail = x \<rparr>) e = Inr (b, d))"
proof -
  from parseDataStoreTxEventData_unfold[OF assms(1)] obtain D H D2 H2 where
    sc: "scattered h parsedTxs events blockData chainId = Inr (D, H)" and
    nz: "normalizeEventIndexes D H = (D2, H2)" and out: "out = map (resolve H2) D2" by blast
  from normalize_spec[OF scattered_wf[OF sc] nz] have len2: "length D2 = length D" by blast
  from t out len2 obtain i where i: "i < length D" and ti: "t = resolve H2 (D2 ! i)"
    by (auto simp: in_set_conv_nth)
  note NE = normalized_entry[OF sc nz i]
  from d ti NE(1) obtain r where r: "r \<in> set (flat (D ! i))" and dr: "d = H2 ! r" by auto
  from NE(5) r obtain n where rl: "r < length H" and n: "H2 ! r = (H ! r)\<lparr> event_index := n \<rparr>"
    by blast
  from scattered_spec(3)[OF sc] rl obtain e b ti' where e: "e \<in> set events" "committed e" and
    ee: "event_entry h (\<lambda>x. \<lparr> event_index = ev_event_index e,
          tx_id = txid e, tx_index = ti', block_height = ted_block_height blockData,
          canonical = True, detail = x \<rparr>) e = Inr (b, H ! r)" by blast
  from event_entry_natural[OF ee, where g = "\<lambda>y. y\<lparr> event_index := n \<rparr>"] n dr
  have ee2: "event_entry h (\<lambda>x. \<lparr> event_index = n,
          tx_id = txid e, tx_index = ti', block_height = ted_block_height blockData,
          canonical = True, detail = x \<rparr>) e = Inr (b, d)" by simp
  from event_entry_base[OF ee2] have "event_index d = n" "tx_index d = ti'" by auto
  with ee2 e show ?thesis by blast
qed

lemma parseDataStoreTxEventData_canonical:
  assumes "parseDataStoreTxEventData h parsedTxs events blockData chainId = Inr out"
    and t: "t \<in> set out"
  shows "\<forall>d\<in>set (flat t). canonical d" and "\<forall>sc\<in>set (smartContracts t). sc_canonical sc"
proof -
  show "\<forall>d\<in>set (flat t). canonical d"
  proof
    fix d assume "d \<in> set (flat t)"
    from parseDataStoreTxEventData_events[OF assms(1) t this] obtain e b where
      "event_entry h (\<lambda>x. \<lparr> event_index = event_index d, tx_id = txid e,
        tx_index = tx_index d, block_height = ted_block_height blockData,
        canonical = True, detail = x \<rparr>) e = Inr (b, d)" by blast
    from event_entry_base[OF this] obtain x where dx: "d = \<lparr> event_index = event_index d,
        tx_id = txid e, tx_index = tx_index d, block_height = ted_block_height blockData,
        canonical = True, detail = x \<rparr>" by blast
    from arg_cong[OF dx, of canonical] show "canonical d" by simp
  qed
  from parseDataStoreTxEventData_unfold[OF assms(1)] obtain D H D2 H2 where
    sc: "scattered h parsedTxs events blockData chainId = Inr (D, H)" and
    nz: "normalizeEventIndexes D H = (D2, H2)" and out: "out = map (resolve H2) D2" by blast
  from normalize_spec[OF scattered_wf[OF sc] nz] have len2: "length D2 = length D" by blast
  from t out len2 obtain i where i: "i < length D" and ti: "t = resolve H2 (D2 ! i)"
    by (auto simp: in_set_conv_nth)
  from normalized_entry(3)[OF sc nz i] ti have "smartContracts t = smartContracts (D ! i)" by simp
  moreover from i have "D ! i \<in> set D" by simp
  ultimately show "\<forall>sc\<in>set (smartContracts t). sc_canonical sc"
    using scattered_spec(5)[OF sc] by metis
qed

lemma parseDataStoreTxEventData_count:
  assumes "parseDataStoreTxEventData h parsedTxs events blockData chainId = Inr out"
  shows "length (concat (map flat out)) = length (filter committed events)"
proof -
  from parseDataStoreTxEventData_unfold[OF assms(1)] obtain D H D2 H2 where
    sc: "scattered h parsedTxs events blockData chainId = Inr (D, H)" and
    nz: "normalizeEventIndexes D H = (D2, H2)" and out: "out = map (resolve H2) D2" by blast
  from normalize_spec[OF scattered_wf[OF sc] nz] have len2: "length D2 = length D" by blast
  have "map (\<lambda>t. length (flat t)) out = map (\<lambda>t. length (flat t)) D"
  proof (rule nth_equalityI)
    show "length (map (\<lambda>t. length (flat t)) out) = length (map (\<lambda>t. length (flat t)) D)"
      using out len2 by simp
  next
    fix i assume "i < length (map (\<lambda>t. length (flat t)) out)"
    then have i: "i < length D" using out len2 by simp
    from normalized_entry(1)[OF sc nz i] i out len2
    show "map (\<lambda>t. length (flat t)) out ! i = map (\<lambda>t. length (flat t)) D ! i" by simp
  qed
  then have "length (concat (map flat out)) = length (concat (map flat D))"
    by (simp add: length_concat comp_def)
  also have "\<dots> = size (mset (concat (map flat D)))" by simp
  also have "\<dots> = length H" unfolding scattered_spec(1)[OF sc] by simp
  finally show ?thesis using scattered_spec(2)[OF sc] by simp
qed

lemma scatter_all_owned:
  "scatter h parsedTxs events blockData chainId evs (D, H) = Inr (D', H') \<Longrightarrow>
   e \<in> set evs \<Longrightarrow> committed e \<Longrightarrow>
   \<exists>i. findIndex (\<lambda>entry. dbtx_tx_id (tx entry) = txid e) D = Some i"
proof (induction evs arbitrary: D H)
  case Nil
  then show ?case by simp
next
  case (Cons ev rest)
  then obtain D1 H1 where
    s1: "scatter_event h parsedTxs events blockData chainId ev (D, H) = Inr (D1, H1)" and
    s2: "scatter h parsedTxs events blockData chainId rest (D1, H1) = Inr (D', H')"
    by (auto split: sum.splits)
  from scatter_event_frame[OF s1] have fr: "map tx D1 = map tx D" by simp
  show ?case
  proof (cases "e = ev")
    case True
    with Cons.prems(3) scatter_event_committed[OF s1] show ?thesis by blast
  next
    case False
    with Cons.prems(2) have "e \<in> set rest" by simp
    from Cons.IH[OF s2 this Cons.prems(3)] show ?thesis unfolding owner_cong[OF fr] .
  qed
qed

lemma parseTransactions_throws:
  "item \<in> set items \<Longrightarrow> parseMessageTransaction h chainId item blockData events = Inl e \<Longrightarrow>
   \<exists>err. parseTransactions h chainId blockData events items = Inl err"
  by (induction items) (auto split: sum.splits)

lemma parseTransactions_results:
  "parseTransactions h chainId blockData events items = Inr parsedTxs \<Longrightarrow>
   (\<forall>item\<in>set items. \<exists>r. parseMessageTransaction h chainId item blockData events = Inr r) \<and>
   parsedTxs = concat (map (\<lambda>item.
       case parseMessageTransaction h chainId item blockData events of
         Inl e \<Rightarrow> [] | Inr None \<Rightarrow> [] | Inr (Some p) \<Rightarrow> [p]) items)"
  by (induction items arbitrary: parsedTxs) (auto split: sum.splits option.splits)

lemma scattered_all_owned:
  assumes "scattered h parsedTxs events blockData chainId = Inr (D, H)"
    and "e \<in> set events" and "committed e"
  shows "\<exists>i. findIndex (\<lambda>entry. dbtx_tx_id (tx entry) = txid e) D = Some i"
proof -
  from assms(1) obtain D0 where
    s: "scatter h parsedTxs events blockData chainId events (D0, []) = Inr (D, H)"
    by (auto simp: scattered_def split: sum.splits)
  from scatter_frame[OF s] have fr: "map tx D = map tx D0" by simp
  from scatter_all_owned[OF s assms(2,3)] show ?thesis unfolding owner_cong[OF fr] .
qed

lemma array_map_total:
  "(\<forall>j<length xs. \<exists>y. f (xs ! j) (i + j) = Inr y) \<Longrightarrow> \<exists>ys. array_map f xs i = Inr ys"
proof (induction xs arbitrary: i)
  case Nil
  then show ?case by simp
next
  case (Cons x xs)
  from Cons.prems have "\<exists>y. f ((x # xs) ! 0) (i + 0) = Inr y" by blast
  then obtain y where y: "f x i = Inr y" by auto
  have "\<forall>j<length xs. \<exists>y. f (xs ! j) (Suc i + j) = Inr y"
  proof (intro allI impI)
    fix j assume "j < length xs"
    then have "Suc j < length (x # xs)" by simp
    with Cons.prems have "\<exists>y. f ((x # xs) ! Suc j) (i + Suc j) = Inr y" by blast
    then show "\<exists>y. f (xs ! j) (Suc i + j) = Inr y" by simp
  qed
  from Cons.IH[OF this] obtain ys where "array_map f xs (Suc i) = Inr ys" by blast
  with y show ?case by simp
qed

subsection \<open>The store calls of a handler\<close>

lemma db_call_appends: "snd (db_call db c log) = log @ [c]"
  by (simp add: db_call_def)

lemma handleBlockMessage_appends:
  "\<exists>calls. snd (handleBlockMessage h chainId msg db log) = log @ calls"
  by (auto simp: handleBlockMessage_def db_call_def split: sum.splits)

lemma handleMicroblockMessage_appends:
  "\<exists>calls. snd (handleMicroblockMessage h chainId msg db log) = log @ calls"
  by (auto simp: handleMicroblockMessage_def db_call_def split: sum.splits)

lemma handleBurnBlockMessage_appends:
  "\<exists>calls. snd (handleBurnBlockMessage h msg db log) = log @ calls"
  by (auto simp: handleBurnBlockMessage_def db_call_def Let_def split: sum.splits option.splits)

lemma handleMempoolTxsMessage_appends:
  "\<exists>calls. snd (handleMempoolTxsMessage h rawTxs db log) = log @ calls"
  by (auto simp: handleMempoolTxsMessage_def db_call_def Let_def split: sum.splits)

lemma handleDroppedMempoolTxsMessage_appends:
  "\<exists>calls. snd (handleDroppedMempoolTxsMessage h msg db log) = log @ calls"
  by (auto simp: handleDroppedMempoolTxsMessage_def db_call_def split: sum.splits)

lemma handleNewAttachmentMessage_appends:
  "\<exists>calls. snd (handleNewAttachmentMessage h msg db log) = log @ calls"
  by (auto simp: handleNewAttachmentMessage_def db_call_def split: sum.splits)

lemma snd_route_response: "snd (route_response r) = snd r"
  by (cases r) (auto simp: route_response_def split: option.splits)

lemma typed_routes_appends:
  "\<exists>calls. snd (typed_routes h chainId db req log) = log @ calls"
  unfolding typed_routes_def
  using handleBlockMessage_appends handleMicroblockMessage_appends handleBurnBlockMessage_appends
    handleMempoolTxsMessage_appends handleDroppedMempoolTxsMessage_appends
    handleNewAttachmentMessage_appends
  by (auto simp: snd_route_response split: sum.splits)

subsection \<open>Independence from the transaction parser\<close>

lemma event_entry_parser:
  "event_entry (h\<lparr> parseMessageTransaction := p \<rparr>) dbEvent e = event_entry h dbEvent e"
  by (simp cong: core_node_event_type.case_cong sum.case_cong)

lemma contract_event_bns_parser:
  "contract_event_bns (h\<lparr> parseMessageTransaction := p \<rparr>) parsedTxs events blockData chainId e i D =
   contract_event_bns h parsedTxs events blockData chainId e i D"
  by (simp add: contract_event_bns_def cong: option.case_cong sum.case_cong)

lemma scatter_event_parser:
  "scatter_event (h\<lparr> parseMessageTransaction := p \<rparr>) parsedTxs events blockData chainId e st =
   scatter_event h parsedTxs events blockData chainId e st"
  unfolding scatter_event_def event_entry_parser contract_event_bns_parser ..

lemma scatter_parser:
  "scatter (h\<lparr> parseMessageTransaction := p \<rparr>) parsedTxs events blockData chainId evs st =
   scatter h parsedTxs events blockData chainId evs st"
  by (induction evs arbitrary: st) (simp_all add: scatter_event_parser cong: sum.case_cong)

lemma initDbTx_parser:
  "initDbTx (h\<lparr> parseMessageTransaction := p \<rparr>) blockData chainId ptx = initDbTx h blockData chainId ptx"
  by (simp add: initDbTx_def cong: tx_payload.case_cong sum.case_cong)

lemma parseDataStoreTxEventData_parser:
  "parseDataStoreTxEventData (h\<lparr> parseMessageTransaction := p \<rparr>) parsedTxs events blockData chainId =
   parseDataStoreTxEventData h parsedTxs events blockData chainId"
  by (simp add: parseDataStoreTxEventData_def scattered_def initDbTx_parser scatter_parser
      cong: sum.case_cong)

lemma parseTransactions_cong:
  "(\<And>item. item \<in> set items \<Longrightarrow>
      parseMessageTransaction h1 chainId item blockData events =
      parseMessageTransaction h2 chainId item blockData events) \<Longrightarrow>
   parseTransactions h1 chainId blockData events items = parseTransactions h2 chainId blockData events items"
  by (induction items) (simp_all cong: sum.case_cong)

lemma array_map_all:
  "array_map f xs i = Inr ys \<Longrightarrow> (\<And>x k y. f x k = Inr y \<Longrightarrow> P y) \<Longrightarrow> \<forall>y\<in>set ys. P y"
proof (induction xs arbitrary: i ys)
  case Nil
  then show ?case by simp
next
  case (Cons x xs)
  from Cons.prems(1) obtain y ys' where y: "f x i = Inr y" and r: "array_map f xs (Suc i) = Inr ys'"
    and ys: "ys = y # ys'" by (auto split: sum.splits)
  from Cons.IH[OF r Cons.prems(2)] Cons.prems(2)[OF y] ys show ?case by simp
qed

lemma scatter_ignores_uncommitted:
  "scatter h parsedTxs events blockData chainId evs st =
   scatter h parsedTxs events blockData chainId (filter committed evs) st"
  by (induction evs arbitrary: st) (simp_all add: scatter_event_uncommitted cong: sum.case_cong)

section \<open>The claims\<close>

text \<open>
  \<^bold>\<open>C1\<close> (event-index normalization). Whenever \<^verbatim>\<open>parseDataStoreTxEventData\<close> returns a
  bundle \<open>out\<close>, for every transaction of it, with \<open>N\<close> the number of events in its five
  merged lists: \<open>N\<close> is the number of committed events of the message whose \<^verbatim>\<open>txid\<close> the
  lookup resolves to this transaction; \<^verbatim>\<open>event_count\<close> is \<open>N\<close>; the \<^verbatim>\<open>event_index\<close> values
  of its events are exactly \<open>0, ..., N - 1\<close>, each once; an event that had a smaller index
  than another before the normalization still has a smaller index after it; and the
  normalization changes nothing but \<^verbatim>\<open>event_index\<close>. The indexes before the normalization
  are the block-relative indexes of committed events of the message.
\<close>

theorem parseDataStoreTxEventData_normalizes_event_index:
  assumes "parseDataStoreTxEventData h parsedTxs events blockData chainId = Inr out"
    and "i < length out"
  shows "\<exists>pre. beforeNormalization h parsedTxs events blockData chainId = Inr pre \<and>
    length pre = length out \<and>
    length (flat (pre ! i)) = length (flat (out ! i)) \<and>
    length (flat (out ! i)) =
      length (filter (\<lambda>e. committed e \<and>
        findIndex (\<lambda>entry. dbtx_tx_id (tx entry) = txid e) out = Some i) events) \<and>
    event_count (tx (out ! i)) = int (length (flat (out ! i))) \<and>
    mset (map event_index (flat (out ! i))) = mset (map int [0..<length (flat (out ! i))]) \<and>
    (\<forall>j<length (flat (out ! i)). \<forall>k<length (flat (out ! i)).
       event_index (flat (pre ! i) ! j) < event_index (flat (pre ! i) ! k) \<longrightarrow>
       event_index (flat (out ! i) ! j) < event_index (flat (out ! i) ! k)) \<and>
    (\<forall>j<length (flat (out ! i)).
       flat (out ! i) ! j = (flat (pre ! i) ! j)\<lparr> event_index := event_index (flat (out ! i) ! j) \<rparr>) \<and>
    (\<forall>d\<in>set (flat (pre ! i)). \<exists>e\<in>set events.
       committed e \<and> txid e = tx_id d \<and> ev_event_index e = event_index d)"
proof -
  from parseDataStoreTxEventData_unfold[OF assms(1)] obtain D H D2 H2 where
    sc: "scattered h parsedTxs events blockData chainId = Inr (D, H)" and
    nz: "normalizeEventIndexes D H = (D2, H2)" and out: "out = map (resolve H2) D2" and
    pre: "beforeNormalization h parsedTxs events blockData chainId = Inr (map (resolve H) D)"
    by blast
  note wf = scattered_wf[OF sc]
  from normalize_spec[OF wf nz] have len2: "length D2 = length D" by blast
  have lens: "length (map (resolve H) D) = length out" using out len2 by simp
  have ids: "map (\<lambda>t. dbtx_tx_id (tx t)) out = map (\<lambda>t. dbtx_tx_id (tx t)) D"
  proof (rule nth_equalityI)
    show "length (map (\<lambda>t. dbtx_tx_id (tx t)) out) = length (map (\<lambda>t. dbtx_tx_id (tx t)) D)"
      using out len2 by simp
  next
    fix i assume "i < length (map (\<lambda>t. dbtx_tx_id (tx t)) out)"
    then have i: "i < length D" using out len2 by simp
    from normalized_entry(2)[OF sc nz i] i out len2
    show "map (\<lambda>t. dbtx_tx_id (tx t)) out ! i = map (\<lambda>t. dbtx_tx_id (tx t)) D ! i" by simp
  qed
  from assms(2) have i: "i < length D" and i2: "i < length D2" using out len2 by simp_all
  let ?rs = "flat (D ! i)"
  let ?N = "length ?rs"
  let ?pre = "map (resolve H) D"
  note NE = normalized_entry[OF sc nz i]
  have fo: "flat (out ! i) = map (\<lambda>r. H2 ! r) ?rs" using NE(1) out i2 by simp
  have fp: "flat (?pre ! i) = map (\<lambda>r. H ! r) ?rs" using i by (simp add: flat_resolve)
  have txo: "tx (out ! i) = (tx (D ! i))\<lparr> event_count := int ?N \<rparr>" using NE(2) out i2 by simp
  have c1: "length (flat (?pre ! i)) = length (flat (out ! i))" using fo fp by simp
  have c2: "length (flat (out ! i)) =
       length (filter (\<lambda>e. committed e \<and>
         findIndex (\<lambda>entry. dbtx_tx_id (tx entry) = txid e) out = Some i) events)"
    using scattered_spec(4)[OF sc] i fo findIndex_tx_id_cong[OF ids] by simp
  have c3: "event_count (tx (out ! i)) = int (length (flat (out ! i)))" using txo fo by simp
  have "mset (map (\<lambda>r. event_index (H2 ! r)) ?rs) =
        mset (map (\<lambda>r. event_index (H2 ! r)) (sortedEvents H (D ! i)))"
    by (simp add: mset_sortedEvents)
  also have "\<dots> = mset (map int [0..<?N])" using NE(4) by simp
  finally have c4: "mset (map event_index (flat (out ! i))) = mset (map int [0..<length (flat (out ! i))])"
    using fo by (simp add: comp_def)
  have c5: "\<forall>j<length (flat (out ! i)). \<forall>k<length (flat (out ! i)).
        event_index (flat (?pre ! i) ! j) < event_index (flat (?pre ! i) ! k) \<longrightarrow>
        event_index (flat (out ! i) ! j) < event_index (flat (out ! i) ! k)"
  proof (intro allI impI)
    fix j k assume j: "j < length (flat (out ! i))" and k: "k < length (flat (out ! i))"
      and lt: "event_index (flat (?pre ! i) ! j) < event_index (flat (?pre ! i) ! k)"
    from j k fo have j': "j < ?N" and k': "k < ?N" by simp_all
    from lt fp j' k' have lt': "event_index (H ! (?rs ! j)) < event_index (H ! (?rs ! k))" by simp
    have "event_index (H2 ! (?rs ! j)) < event_index (H2 ! (?rs ! k))"
    proof (rule sorted_position_order[where key = "\<lambda>r. event_index (H ! r)" and rs = ?rs])
      show "map (\<lambda>r. event_index (H2 ! r)) (sort_key (\<lambda>r. event_index (H ! r)) ?rs) = map int [0..<?N]"
        using NE(4) by (simp add: sortedEvents_def)
      show "?rs ! j \<in> set ?rs" using j' by simp
      show "?rs ! k \<in> set ?rs" using k' by simp
      show "event_index (H ! (?rs ! j)) < event_index (H ! (?rs ! k))" by (rule lt')
    qed
    with fo j' k' show "event_index (flat (out ! i) ! j) < event_index (flat (out ! i) ! k)" by simp
  qed
  have c6: "\<forall>j<length (flat (out ! i)).
        flat (out ! i) ! j =
          (flat (?pre ! i) ! j)\<lparr> event_index := event_index (flat (out ! i) ! j) \<rparr>"
  proof (intro allI impI)
    fix j assume "j < length (flat (out ! i))"
    with fo have j': "j < ?N" by simp
    then have "?rs ! j \<in> set ?rs" by simp
    with NE(5) obtain n where n: "H2 ! (?rs ! j) = (H ! (?rs ! j))\<lparr> event_index := n \<rparr>" by blast
    then have "event_index (H2 ! (?rs ! j)) = n" by simp
    with n have "H2 ! (?rs ! j) = (H ! (?rs ! j))\<lparr> event_index := event_index (H2 ! (?rs ! j)) \<rparr>"
      by simp
    with fo fp j' show "flat (out ! i) ! j =
          (flat (?pre ! i) ! j)\<lparr> event_index := event_index (flat (out ! i) ! j) \<rparr>"
      by simp
  qed
  have c7: "\<forall>d\<in>set (flat (?pre ! i)). \<exists>e\<in>set events.
        committed e \<and> txid e = tx_id d \<and> ev_event_index e = event_index d"
  proof
    fix d assume "d \<in> set (flat (?pre ! i))"
    with fp obtain r where r: "r \<in> set ?rs" "d = H ! r" by auto
    with NE(5) have "r < length H" by blast
    with scattered_spec(3)[OF sc] obtain e b ti where e: "e \<in> set events" "committed e"
      "event_entry h (\<lambda>x. \<lparr> event_index = ev_event_index e,
        tx_id = txid e, tx_index = ti, block_height = ted_block_height blockData,
        canonical = True, detail = x \<rparr>) e = Inr (b, H ! r)" by blast
    from event_entry_base[OF e(3)] obtain x where "H ! r = \<lparr> event_index = ev_event_index e,
        tx_id = txid e, tx_index = ti, block_height = ted_block_height blockData,
        canonical = True, detail = x \<rparr>" by blast
    with r have "txid e = tx_id d \<and> ev_event_index e = event_index d" by simp
    with e show "\<exists>e\<in>set events. committed e \<and> txid e = tx_id d \<and> ev_event_index e = event_index d"
      by blast
  qed
  from pre lens c1 c2 c3 c4 c5 c6 c7 show ?thesis by (intro exI[of _ ?pre] conjI)
qed

theorem parseDataStoreTxEventData_normalizes_event_index_witness:
  "parseDataStoreTxEventData sample_helpers sample_parsedTxs sample_events sample_blockData 1
     = Inr sample_bundle \<and>
   map (\<lambda>t. map event_index (flat t))
     (projr (beforeNormalization sample_helpers sample_parsedTxs sample_events sample_blockData 1))
     = [[1, 0], [2, 3]] \<and>
   map (\<lambda>t. map event_index (flat t)) sample_bundle = [[1, 0], [0, 1]] \<and>
   map (\<lambda>t. event_count (tx t)) sample_bundle = [2, 2] \<and>
   mset (map event_index (flat (sample_bundle ! 1))) = mset (map int [0..<2])"
proof -
  have e: "parseDataStoreTxEventData sample_helpers sample_parsedTxs sample_events sample_blockData 1
     = Inr sample_bundle" by code_simp
  have b: "map (\<lambda>t. map event_index (flat t))
     (projr (beforeNormalization sample_helpers sample_parsedTxs sample_events sample_blockData 1))
     = [[1, 0], [2, 3]]" by code_simp
  have c: "map (\<lambda>t. map event_index (flat t)) sample_bundle = [[1, 0], [0, 1]]"
    "map (\<lambda>t. event_count (tx t)) sample_bundle = [2, 2]"
    "length sample_bundle = 2" "length (flat (sample_bundle ! 1)) = 2"
    by (simp_all add: sample_bundle_def flat_def)
  have i1: "1 < length sample_bundle" by (simp add: c(3))
  from parseDataStoreTxEventData_normalizes_event_index[OF e i1]
  have "mset (map event_index (flat (sample_bundle ! 1))) =
         mset (map int [0..<length (flat (sample_bundle ! 1))])"
    by (elim exE conjE)
  with e b c show ?thesis by simp
qed

text \<open>
  \<^bold>\<open>C2\<close> (a transaction that fails to decode). The decoding of a raw transaction is done by
  the reader's \<^verbatim>\<open>parseMessageTransaction\<close>, which throws when it fails. When it throws on a
  transaction of an anchor-block message or of a microblock message, the handler of the
  message ends with an error, and the calls issued to the store are those issued before
  the message: nothing of the message reaches the store.
\<close>

theorem undecodable_transaction_aborts_message:
  "((\<exists>item\<in>set (msg_transactions blockMsg). \<exists>e.
       parseMessageTransaction h chainId item (block_blockData blockMsg) (msg_events blockMsg) = Inl e)
     \<longrightarrow> (\<exists>err. handleBlockMessage h chainId blockMsg db log = (Some err, log))) \<and>
   ((\<exists>item\<in>set (mbm_transactions microblockMsg). \<exists>e.
       parseMessageTransaction h chainId item (microblock_blockData microblockMsg)
         (mbm_events microblockMsg) = Inl e)
     \<longrightarrow> (\<exists>err. handleMicroblockMessage h chainId microblockMsg db log = (Some err, log)))"
proof (intro conjI impI)
  assume "\<exists>item\<in>set (msg_transactions blockMsg). \<exists>e.
       parseMessageTransaction h chainId item (block_blockData blockMsg) (msg_events blockMsg) = Inl e"
  then obtain err where "parseTransactions h chainId (block_blockData blockMsg) (msg_events blockMsg)
      (msg_transactions blockMsg) = Inl err"
    using parseTransactions_throws by blast
  then show "\<exists>err. handleBlockMessage h chainId blockMsg db log = (Some err, log)"
    by (simp add: handleBlockMessage_def handleBlockMessage_dbData_def)
next
  assume "\<exists>item\<in>set (mbm_transactions microblockMsg). \<exists>e.
       parseMessageTransaction h chainId item (microblock_blockData microblockMsg)
         (mbm_events microblockMsg) = Inl e"
  then obtain err where "parseTransactions h chainId (microblock_blockData microblockMsg)
      (mbm_events microblockMsg) (mbm_transactions microblockMsg) = Inl err"
    using parseTransactions_throws by blast
  then show "\<exists>err. handleMicroblockMessage h chainId microblockMsg db log = (Some err, log)"
    by (auto simp: handleMicroblockMessage_def handleMicroblockMessage_updateData_def
        split: sum.splits)
qed

theorem undecodable_transaction_aborts_message_witness:
  "parseMessageTransaction sample_helpers 1 sample_bad_tx (block_blockData sample_bad_block_message)
     (msg_events sample_bad_block_message) = Inl (Error ''DecodeError'') \<and>
   sample_bad_tx \<in> set (msg_transactions sample_bad_block_message) \<and>
   handleBlockMessage sample_helpers 1 sample_bad_block_message accepting_store []
     = (Some (Error ''DecodeError''), []) \<and>
   sample_bad_tx \<in> set (mbm_transactions sample_bad_microblock_message) \<and>
   handleMicroblockMessage sample_helpers 1 sample_bad_microblock_message accepting_store []
     = (Some (Error ''DecodeError''), []) \<and>
   (\<exists>err. handleBlockMessage sample_helpers 1 sample_bad_block_message accepting_store []
      = (Some err, [])) \<and>
   (\<exists>err. handleMicroblockMessage sample_helpers 1 sample_bad_microblock_message accepting_store []
      = (Some err, []))"
proof -
  have a: "parseMessageTransaction sample_helpers 1 sample_bad_tx (block_blockData sample_bad_block_message)
     (msg_events sample_bad_block_message) = Inl (Error ''DecodeError'')"
    "parseMessageTransaction sample_helpers 1 sample_bad_tx
       (microblock_blockData sample_bad_microblock_message)
       (mbm_events sample_bad_microblock_message) = Inl (Error ''DecodeError'')"
    by (simp_all add: sample_helpers_def sample_parseMessageTransaction_def sample_bad_tx_def)
  have b: "sample_bad_tx \<in> set (msg_transactions sample_bad_block_message)"
    "sample_bad_tx \<in> set (mbm_transactions sample_bad_microblock_message)"
    by (simp_all add: sample_bad_block_message_def sample_bad_microblock_message_def)
  have c: "handleBlockMessage sample_helpers 1 sample_bad_block_message accepting_store []
     = (Some (Error ''DecodeError''), [])"
    "handleMicroblockMessage sample_helpers 1 sample_bad_microblock_message accepting_store []
     = (Some (Error ''DecodeError''), [])"
    by code_simp+
  from undecodable_transaction_aborts_message[of sample_bad_block_message sample_helpers 1
      accepting_store "[]" sample_bad_microblock_message] a b c
  show ?thesis by blast
qed

text \<open>
  \<^bold>\<open>C3\<close> (raw event first). For every POST request, the first call issued to the store is
  \<^verbatim>\<open>storeRawEventRequest\<close> with the path of the request and its serialized body; the
  calls of the typed handler come after it. When the store rejects that call, nothing
  else is issued and the response has status 500; when it accepts, the request is
  answered by the typed routes, started on a store that already holds the raw record.
\<close>

theorem raw_event_stored_before_typed_handler:
  "\<exists>rest. snd (post_request h chainId db req log) =
      log @ StoreRawEventRequest (req_path req) (JSON_stringify h (req_body req)) # rest \<and>
    (\<forall>e. db log (StoreRawEventRequest (req_path req) (JSON_stringify h (req_body req))) = Some e
       \<longrightarrow> rest = [] \<and> fst (post_request h chainId db req log) = Response 500 (UnhandledError e)) \<and>
    (db log (StoreRawEventRequest (req_path req) (JSON_stringify h (req_body req))) = None
       \<longrightarrow> post_request h chainId db req log =
            typed_routes h chainId db req
              (log @ [StoreRawEventRequest (req_path req) (JSON_stringify h (req_body req))]))"
proof -
  let ?raw = "StoreRawEventRequest (req_path req) (JSON_stringify h (req_body req))"
  show ?thesis
  proof (cases "db log ?raw")
    case None
    then have p: "post_request h chainId db req log = typed_routes h chainId db req (log @ [?raw])"
      by (simp add: post_request_def handleRawEventRequest_def db_call_def)
    from typed_routes_appends obtain calls where
      "snd (typed_routes h chainId db req (log @ [?raw])) = (log @ [?raw]) @ calls" by blast
    with p None show ?thesis by simp
  next
    case (Some e)
    then have "post_request h chainId db req log = (Response 500 (UnhandledError e), log @ [?raw])"
      by (simp add: post_request_def handleRawEventRequest_def db_call_def asyncHandler_rejected_def)
    with Some show ?thesis by simp
  qed
qed

theorem raw_event_stored_before_typed_handler_witness:
  "post_request sample_helpers 1 rejecting_store \<lparr> req_path = ''/new_block'', req_body = ''block'' \<rparr> []
     = (Response 500 (UnhandledError (Error ''connection refused'')),
        [StoreRawEventRequest ''/new_block'' ''block'']) \<and>
   fst (post_request sample_helpers 1 accepting_store
          \<lparr> req_path = ''/new_burn_block'', req_body = ''burn'' \<rparr> []) = Response 200 ResultOk \<and>
   length (snd (post_request sample_helpers 1 accepting_store
          \<lparr> req_path = ''/new_burn_block'', req_body = ''burn'' \<rparr> [])) = 3 \<and>
   (\<exists>rest. snd (post_request sample_helpers 1 accepting_store
          \<lparr> req_path = ''/new_burn_block'', req_body = ''burn'' \<rparr> []) =
        StoreRawEventRequest ''/new_burn_block'' ''burn'' # rest)"
proof -
  have a: "post_request sample_helpers 1 rejecting_store \<lparr> req_path = ''/new_block'', req_body = ''block'' \<rparr> []
     = (Response 500 (UnhandledError (Error ''connection refused'')),
        [StoreRawEventRequest ''/new_block'' ''block''])"
    "fst (post_request sample_helpers 1 accepting_store
          \<lparr> req_path = ''/new_burn_block'', req_body = ''burn'' \<rparr> []) = Response 200 ResultOk"
    "length (snd (post_request sample_helpers 1 accepting_store
          \<lparr> req_path = ''/new_burn_block'', req_body = ''burn'' \<rparr> [])) = 3"
    by code_simp+
  have s: "JSON_stringify sample_helpers ''burn'' = ''burn''" by (simp add: sample_helpers_def)
  from raw_event_stored_before_typed_handler[of sample_helpers 1 accepting_store
      "\<lparr> req_path = ''/new_burn_block'', req_body = ''burn'' \<rparr>" "[]"]
  have "\<exists>rest. snd (post_request sample_helpers 1 accepting_store
          \<lparr> req_path = ''/new_burn_block'', req_body = ''burn'' \<rparr> []) =
        StoreRawEventRequest ''/new_burn_block'' ''burn'' # rest"
    by (auto simp: s)
  with a show ?thesis by simp
qed

text \<open>
  \<^bold>\<open>C4\<close> (uncommitted filter). Whenever \<^verbatim>\<open>parseDataStoreTxEventData\<close> returns a bundle, every
  event in the event lists of any of its transactions is the object that the switch builds
  from a committed event of the message (with the \<^verbatim>\<open>txid\<close> and the payload of that event,
  and the renumbered index), and the bundle holds as many events as the message has
  committed events: no event with \<^verbatim>\<open>committed = false\<close> is in it. The loop over the events
  does the same as a loop over the committed events alone.
\<close>

theorem parseDataStoreTxEventData_drops_uncommitted:
  assumes "parseDataStoreTxEventData h parsedTxs events blockData chainId = Inr out"
  shows "(\<forall>t\<in>set out. \<forall>d\<in>set (flat t). \<exists>e\<in>set events. committed e \<and>
      (\<exists>b. event_entry h (\<lambda>x. \<lparr> event_index = event_index d, tx_id = txid e,
          tx_index = tx_index d, block_height = ted_block_height blockData,
          canonical = True, detail = x \<rparr>) e = Inr (b, d))) \<and>
    length (concat (map flat out)) = length (filter committed events) \<and>
    (\<forall>evs st. scatter h parsedTxs events blockData chainId evs st =
       scatter h parsedTxs events blockData chainId (filter committed evs) st)"
  using parseDataStoreTxEventData_events[OF assms] parseDataStoreTxEventData_count[OF assms]
    scatter_ignores_uncommitted
  by blast

theorem parseDataStoreTxEventData_drops_uncommitted_witness:
  "parseDataStoreTxEventData sample_helpers sample_parsedTxs sample_events sample_blockData 1
     = Inr sample_bundle \<and>
   length sample_events = 5 \<and> length (filter committed sample_events) = 4 \<and>
   length (concat (map flat sample_bundle)) = 4 \<and>
   concat (map nftEvents sample_bundle) = []"
proof -
  have e: "parseDataStoreTxEventData sample_helpers sample_parsedTxs sample_events sample_blockData 1
     = Inr sample_bundle" by code_simp
  have c: "length sample_events = 5" "length (filter committed sample_events) = 4"
    "concat (map nftEvents sample_bundle) = []"
    by (simp_all add: sample_events_def sample_bundle_def)
  from parseDataStoreTxEventData_drops_uncommitted[OF e] c(2)
  have "length (concat (map flat sample_bundle)) = 4" by simp
  with e c show ?thesis by simp
qed

text \<open>
  \<^bold>\<open>C5\<close> (missing owner transaction). When a committed event of the message has a \<^verbatim>\<open>txid\<close>
  that is the \<^verbatim>\<open>tx_id\<close> of none of the transactions of the bundle (the records that
  \<^verbatim>\<open>createDbTxFromCoreMsg\<close> builds from the parsed transactions),
  \<^verbatim>\<open>parseDataStoreTxEventData\<close> throws: it returns no bundle.
\<close>

theorem parseDataStoreTxEventData_missing_tx_fails:
  assumes "e \<in> set events" and "committed e"
    and "\<forall>ptx\<in>set parsedTxs. \<forall>t. createDbTxFromCoreMsg h ptx = Inr t \<longrightarrow> dbtx_tx_id t \<noteq> txid e"
  shows "\<exists>err. parseDataStoreTxEventData h parsedTxs events blockData chainId = Inl err"
proof (cases "parseDataStoreTxEventData h parsedTxs events blockData chainId")
  case (Inl err)
  then show ?thesis by blast
next
  case (Inr out)
  from parseDataStoreTxEventData_unfold[OF Inr] obtain D H where
    sc: "scattered h parsedTxs events blockData chainId = Inr (D, H)" by blast
  from scattered_all_owned[OF sc assms(1,2)] obtain i where
    "findIndex (\<lambda>entry. dbtx_tx_id (tx entry) = txid e) D = Some i" by blast
  from findIndex_Some[OF this] have i: "i < length D" and id: "dbtx_tx_id (tx (D ! i)) = txid e"
    by simp_all
  from scattered_spec(6,7)[OF sc] i have "parsedTxs ! i \<in> set parsedTxs"
    and "createDbTxFromCoreMsg h (parsedTxs ! i) = Inr (tx (D ! i))" by simp_all
  with assms(3) id show ?thesis by blast
qed

theorem parseDataStoreTxEventData_missing_tx_fails_witness:
  "hd sample_events \<in> set sample_events \<and> committed (hd sample_events) \<and>
   txid (hd sample_events) = ''T2'' \<and>
   parseDataStoreTxEventData sample_helpers [hd sample_parsedTxs] sample_events sample_blockData 1
     = Inl (Error ''Unexpected missing tx during event parsing by tx_id T2'') \<and>
   (\<exists>err. parseDataStoreTxEventData sample_helpers [hd sample_parsedTxs] sample_events
      sample_blockData 1 = Inl err)"
proof -
  have a: "hd sample_events \<in> set sample_events" "committed (hd sample_events)"
    "txid (hd sample_events) = ''T2''"
    by (simp_all add: sample_events_def)
  have b: "\<forall>ptx\<in>set [hd sample_parsedTxs]. \<forall>t. createDbTxFromCoreMsg sample_helpers ptx = Inr t \<longrightarrow>
      dbtx_tx_id t \<noteq> txid (hd sample_events)"
    by (auto simp: sample_parsedTxs_def sample_helpers_def sample_tx1_def sample_events_def)
  have c: "parseDataStoreTxEventData sample_helpers [hd sample_parsedTxs] sample_events sample_blockData 1
     = Inl (Error ''Unexpected missing tx during event parsing by tx_id T2'')" by code_simp
  from parseDataStoreTxEventData_missing_tx_fails[OF a(1,2) b] a c show ?thesis by simp
qed

text \<open>
  \<^bold>\<open>C6\<close> (canonical on insert). Every call that the handlers of anchor blocks, microblocks
  and burn blocks issue to the store carries \<^verbatim>\<open>canonical = true\<close> in every record that
  the event server builds with that field: the block, the microblocks of an anchor block
  (also \<^verbatim>\<open>microblock_canonical\<close>), the miner rewards, the burnchain rewards, the reward
  slot holders, the smart contracts and the events of all five kinds, for every message,
  every environment and every store.
\<close>

theorem handlers_insert_canonical:
  "(\<forall>c\<in>set (drop (length log) (snd (handleBlockMessage h chainId blockMsg db log))).
      all_canonical c) \<and>
   (\<forall>c\<in>set (drop (length log) (snd (handleMicroblockMessage h chainId microblockMsg db log))).
      all_canonical c) \<and>
   (\<forall>c\<in>set (drop (length log) (snd (handleBurnBlockMessage h burnBlockMsg db log))).
      all_canonical c)"
proof (intro conjI)
  show "\<forall>c\<in>set (drop (length log) (snd (handleBlockMessage h chainId blockMsg db log))).
      all_canonical c"
  proof (cases "handleBlockMessage_dbData h chainId blockMsg")
    case (Inl e)
    then show ?thesis by (simp add: handleBlockMessage_def)
  next
    case (Inr d)
    then obtain parsedTxs rewards mbs t where
      r: "dbMinerRewards h blockMsg = Inr rewards" and m: "dbMicroblocks h blockMsg = Inr mbs" and
      p: "parseDataStoreTxEventData h parsedTxs (msg_events blockMsg)
            \<lparr> ted_block_height = msg_block_height blockMsg,
              ted_index_block_hash = msg_index_block_hash blockMsg \<rparr> chainId = Inr t" and
      d: "d = \<lparr> block = dbBlock blockMsg, microblocks = mbs, minerRewards = rewards, txs = t \<rparr>"
      by (auto simp: handleBlockMessage_dbData_def split: sum.splits)
    have "blk_canonical (block d)" using d by (simp add: dbBlock_def)
    moreover have "\<forall>mb\<in>set (microblocks d). mb_canonical mb \<and> microblock_canonical mb"
      using d m by (auto simp: dbMicroblocks_def split: sum.splits)
    moreover have "\<forall>r\<in>set rewards. mr_canonical r"
      by (rule array_map_all[OF r[unfolded dbMinerRewards_def]]) (auto split: sum.splits)
    then have "\<forall>r\<in>set (minerRewards d). mr_canonical r" using d by simp
    moreover have "\<forall>x\<in>set (txs d). tx_data_canonical x"
      using parseDataStoreTxEventData_canonical[OF p] d by (simp add: tx_data_canonical_def)
    ultimately have "all_canonical (Update d)" by simp
    with Inr show ?thesis by (simp add: handleBlockMessage_def db_call_def)
  qed
  show "\<forall>c\<in>set (drop (length log) (snd (handleMicroblockMessage h chainId microblockMsg db log))).
      all_canonical c"
  proof (cases "handleMicroblockMessage_updateData h chainId microblockMsg")
    case (Inl e)
    then show ?thesis by (simp add: handleMicroblockMessage_def)
  next
    case (Inr u)
    then obtain parsedTxs mbs t where
      p: "parseDataStoreTxEventData h parsedTxs (mbm_events microblockMsg)
            \<lparr> ted_block_height = - 1, ted_index_block_hash = '''' \<rparr> chainId = Inr t" and
      u: "u = \<lparr> mu_microblocks = mbs, mu_txs = t \<rparr>"
      by (auto simp: handleMicroblockMessage_updateData_def split: sum.splits)
    have "\<forall>x\<in>set (mu_txs u). tx_data_canonical x"
      using parseDataStoreTxEventData_canonical[OF p] u by (simp add: tx_data_canonical_def)
    then have "all_canonical (UpdateMicroblocks u)" by simp
    with Inr show ?thesis by (simp add: handleMicroblockMessage_def db_call_def)
  qed
  show "\<forall>c\<in>set (drop (length log) (snd (handleBurnBlockMessage h burnBlockMsg db log))).
      all_canonical c"
  proof (cases "handleBurnBlockMessage_rewards h burnBlockMsg")
    case (Inl e)
    then show ?thesis by (simp add: handleBurnBlockMessage_def)
  next
    case (Inr rewards)
    have "\<forall>r\<in>set rewards. br_canonical r"
      by (rule array_map_all[OF Inr[unfolded handleBurnBlockMessage_rewards_def]])
        (auto split: sum.splits)
    moreover have "\<forall>s\<in>set (handleBurnBlockMessage_slotHolders burnBlockMsg). sh_canonical s"
      by (auto simp: handleBurnBlockMessage_slotHolders_def)
    ultimately show ?thesis using Inr
      by (auto simp: handleBurnBlockMessage_def db_call_def Let_def split: option.splits)
  qed
qed

theorem handlers_insert_canonical_witness:
  "length (snd (handleBlockMessage sample_helpers 1 sample_block_message accepting_store [])) = 1 \<and>
   list_all all_canonical
     (snd (handleBlockMessage sample_helpers 1 sample_block_message accepting_store [])) \<and>
   length (snd (handleMicroblockMessage sample_helpers 1 sample_microblock_message accepting_store [])) = 1 \<and>
   list_all all_canonical
     (snd (handleMicroblockMessage sample_helpers 1 sample_microblock_message accepting_store [])) \<and>
   length (snd (handleBurnBlockMessage sample_helpers sample_burn_block_message accepting_store [])) = 2 \<and>
   list_all all_canonical
     (snd (handleBurnBlockMessage sample_helpers sample_burn_block_message accepting_store []))"
proof -
  have l: "length (snd (handleBlockMessage sample_helpers 1 sample_block_message accepting_store [])) = 1"
    "length (snd (handleMicroblockMessage sample_helpers 1 sample_microblock_message accepting_store [])) = 1"
    "length (snd (handleBurnBlockMessage sample_helpers sample_burn_block_message accepting_store [])) = 2"
    by code_simp+
  from handlers_insert_canonical[of "[]" sample_helpers 1 sample_block_message accepting_store
      sample_microblock_message sample_burn_block_message] l
  show ?thesis by (simp add: list_all_iff)
qed

text \<open>
  \<^bold>\<open>C7\<close> (sentinels of a microblock). The block data that \<^verbatim>\<open>handleMicroblockMessage\<close> builds
  for the transactions of a message has \<^verbatim>\<open>burn_block_time = -1\<close>,
  \<^verbatim>\<open>index_block_hash = ""\<close>, \<^verbatim>\<open>block_hash = ""\<close>, \<^verbatim>\<open>block_height = -1\<close> and
  \<^verbatim>\<open>parent_block_hash = ""\<close> (and also \<^verbatim>\<open>burn_block_height = -1\<close>), and this is the block
  data that the handler passes to the transaction parser, for every transaction of the
  message:

  \<^item> whenever the handler reaches the store, the parser has returned for every transaction
    of the message at this block data, and the transactions of the bundle given to
    \<^verbatim>\<open>updateMicroblocks\<close> are built from what the parser returned at this block data (the
    transactions it returned, in the order of the message);
  \<^item> whenever the parser throws at this block data for a transaction of the message, the
    handler fails and the store is not reached;
  \<^item> the handler calls the parser with no other block data: replacing the parser by any
    function that agrees with it on block data with these five values changes nothing of
    what the handler does.
\<close>

theorem handleMicroblockMessage_passes_sentinels:
  "bd_burn_block_time (microblock_blockData msg) = - 1 \<and>
   bd_index_block_hash (microblock_blockData msg) = '''' \<and>
   bd_block_hash (microblock_blockData msg) = '''' \<and>
   bd_block_height (microblock_blockData msg) = - 1 \<and>
   bd_parent_block_hash (microblock_blockData msg) = '''' \<and>
   bd_burn_block_height (microblock_blockData msg) = - 1 \<and>
   (\<forall>u. snd (handleMicroblockMessage h chainId msg db log) = log @ [UpdateMicroblocks u] \<longrightarrow>
      (\<forall>item\<in>set (mbm_transactions msg). \<exists>r.
          parseMessageTransaction h chainId item (microblock_blockData msg) (mbm_events msg) = Inr r) \<and>
      (\<exists>parsedTxs.
          parseTransactions h chainId (microblock_blockData msg) (mbm_events msg)
            (mbm_transactions msg) = Inr parsedTxs \<and>
          parsedTxs = concat (map (\<lambda>item.
              case parseMessageTransaction h chainId item (microblock_blockData msg) (mbm_events msg) of
                Inl e \<Rightarrow> [] | Inr None \<Rightarrow> [] | Inr (Some p) \<Rightarrow> [p]) (mbm_transactions msg)) \<and>
          parseDataStoreTxEventData h parsedTxs (mbm_events msg)
            \<lparr> ted_block_height = - 1, ted_index_block_hash = '''' \<rparr> chainId = Inr (mu_txs u))) \<and>
   (\<forall>item\<in>set (mbm_transactions msg). \<forall>e.
      parseMessageTransaction h chainId item (microblock_blockData msg) (mbm_events msg) = Inl e \<longrightarrow>
      (\<exists>err. handleMicroblockMessage h chainId msg db log = (Some err, log))) \<and>
   ((\<forall>c item bd evs.
       bd_burn_block_time bd = - 1 \<and> bd_index_block_hash bd = '''' \<and> bd_block_hash bd = '''' \<and>
       bd_block_height bd = - 1 \<and> bd_parent_block_hash bd = '''' \<longrightarrow>
       p c item bd evs = parseMessageTransaction h c item bd evs) \<longrightarrow>
    handleMicroblockMessage (h\<lparr> parseMessageTransaction := p \<rparr>) chainId msg db log =
    handleMicroblockMessage h chainId msg db log)"
proof -
  have fields:
    "bd_burn_block_time (microblock_blockData msg) = - 1"
    "bd_index_block_hash (microblock_blockData msg) = ''''"
    "bd_block_hash (microblock_blockData msg) = ''''"
    "bd_block_height (microblock_blockData msg) = - 1"
    "bd_parent_block_hash (microblock_blockData msg) = ''''"
    "bd_burn_block_height (microblock_blockData msg) = - 1"
    by (simp_all add: microblock_blockData_def)
  have link: "(\<forall>item\<in>set (mbm_transactions msg). \<exists>r.
          parseMessageTransaction h chainId item (microblock_blockData msg) (mbm_events msg) = Inr r) \<and>
      (\<exists>parsedTxs.
          parseTransactions h chainId (microblock_blockData msg) (mbm_events msg)
            (mbm_transactions msg) = Inr parsedTxs \<and>
          parsedTxs = concat (map (\<lambda>item.
              case parseMessageTransaction h chainId item (microblock_blockData msg) (mbm_events msg) of
                Inl e \<Rightarrow> [] | Inr None \<Rightarrow> [] | Inr (Some p) \<Rightarrow> [p]) (mbm_transactions msg)) \<and>
          parseDataStoreTxEventData h parsedTxs (mbm_events msg)
            \<lparr> ted_block_height = - 1, ted_index_block_hash = '''' \<rparr> chainId = Inr (mu_txs u))"
    if called: "snd (handleMicroblockMessage h chainId msg db log) = log @ [UpdateMicroblocks u]" for u
  proof -
    from called have "handleMicroblockMessage_updateData h chainId msg = Inr u"
      by (auto simp: handleMicroblockMessage_def db_call_def split: sum.splits)
    then obtain parsedTxs where
      parsed: "parseTransactions h chainId (microblock_blockData msg) (mbm_events msg)
          (mbm_transactions msg) = Inr parsedTxs"
      and built: "parseDataStoreTxEventData h parsedTxs (mbm_events msg)
          \<lparr> ted_block_height = - 1, ted_index_block_hash = '''' \<rparr> chainId = Inr (mu_txs u)"
      by (auto simp: handleMicroblockMessage_updateData_def split: sum.splits)
    from parseTransactions_results[OF parsed] parsed built show ?thesis by blast
  qed
  have throws: "\<exists>err. handleMicroblockMessage h chainId msg db log = (Some err, log)"
    if "item \<in> set (mbm_transactions msg)"
      and "parseMessageTransaction h chainId item (microblock_blockData msg) (mbm_events msg) = Inl e"
    for item e
  proof -
    from parseTransactions_throws[OF that] obtain err where
      "parseTransactions h chainId (microblock_blockData msg) (mbm_events msg)
        (mbm_transactions msg) = Inl err" ..
    then show ?thesis
      by (auto simp: handleMicroblockMessage_def handleMicroblockMessage_updateData_def
          split: sum.splits)
  qed
  have inv: "handleMicroblockMessage (h\<lparr> parseMessageTransaction := p \<rparr>) chainId msg db log =
      handleMicroblockMessage h chainId msg db log"
    if agree: "\<forall>c item bd evs.
       bd_burn_block_time bd = - 1 \<and> bd_index_block_hash bd = '''' \<and> bd_block_hash bd = '''' \<and>
       bd_block_height bd = - 1 \<and> bd_parent_block_hash bd = '''' \<longrightarrow>
       p c item bd evs = parseMessageTransaction h c item bd evs"
  proof -
    have "parseTransactions (h\<lparr> parseMessageTransaction := p \<rparr>) chainId (microblock_blockData msg)
            (mbm_events msg) (mbm_transactions msg) =
          parseTransactions h chainId (microblock_blockData msg) (mbm_events msg) (mbm_transactions msg)"
      by (rule parseTransactions_cong) (simp add: agree microblock_blockData_def)
    then have "handleMicroblockMessage_updateData (h\<lparr> parseMessageTransaction := p \<rparr>) chainId msg =
        handleMicroblockMessage_updateData h chainId msg"
      by (simp add: handleMicroblockMessage_updateData_def parseDataStoreTxEventData_parser
          cong: sum.case_cong)
    then show ?thesis by (simp add: handleMicroblockMessage_def)
  qed
  from fields link throws inv show ?thesis by blast
qed

theorem handleMicroblockMessage_passes_sentinels_witness:
  "handleMicroblockMessage sample_helpers 1 sample_microblock_message accepting_store []
     = (None, [UpdateMicroblocks \<lparr> mu_microblocks = [], mu_txs = sample_microblock_bundle \<rparr>]) \<and>
   map ptx_block_data
     (concat (map (\<lambda>item.
        case parseMessageTransaction sample_helpers 1 item
               (microblock_blockData sample_microblock_message) (mbm_events sample_microblock_message) of
          Inl e \<Rightarrow> [] | Inr None \<Rightarrow> [] | Inr (Some p) \<Rightarrow> [p]) (mbm_transactions sample_microblock_message)))
     = [microblock_blockData sample_microblock_message, microblock_blockData sample_microblock_message] \<and>
   parseDataStoreTxEventData sample_helpers
     (concat (map (\<lambda>item.
        case parseMessageTransaction sample_helpers 1 item
               (microblock_blockData sample_microblock_message) (mbm_events sample_microblock_message) of
          Inl e \<Rightarrow> [] | Inr None \<Rightarrow> [] | Inr (Some p) \<Rightarrow> [p]) (mbm_transactions sample_microblock_message)))
     (mbm_events sample_microblock_message)
     \<lparr> ted_block_height = - 1, ted_index_block_hash = '''' \<rparr> 1 = Inr sample_microblock_bundle \<and>
   handleMicroblockMessage (sample_helpers\<lparr> parseMessageTransaction := sentinel_rejecting_parser \<rparr>)
     1 sample_microblock_message accepting_store [] = (Some (Error ''sentinel block data''), []) \<and>
   fst (handleBlockMessage (sample_helpers\<lparr> parseMessageTransaction := sentinel_rejecting_parser \<rparr>)
     1 sample_block_message accepting_store []) = None \<and>
   (\<exists>err. handleMicroblockMessage (sample_helpers\<lparr> parseMessageTransaction := sentinel_rejecting_parser \<rparr>)
     1 sample_microblock_message accepting_store [] = (Some err, [])) \<and>
   handleMicroblockMessage (sample_helpers\<lparr> parseMessageTransaction := sentinel_only_parser \<rparr>)
     1 sample_microblock_message accepting_store [] =
   handleMicroblockMessage sample_helpers 1 sample_microblock_message accepting_store []"
proof -
  let ?u = "\<lparr> mu_microblocks = [], mu_txs = sample_microblock_bundle \<rparr>"
  let ?h = "sample_helpers\<lparr> parseMessageTransaction := sentinel_rejecting_parser \<rparr>"
  have a: "handleMicroblockMessage sample_helpers 1 sample_microblock_message accepting_store []
     = (None, [UpdateMicroblocks ?u])"
    by code_simp
  have b: "map ptx_block_data
     (concat (map (\<lambda>item.
        case parseMessageTransaction sample_helpers 1 item
               (microblock_blockData sample_microblock_message) (mbm_events sample_microblock_message) of
          Inl e \<Rightarrow> [] | Inr None \<Rightarrow> [] | Inr (Some p) \<Rightarrow> [p]) (mbm_transactions sample_microblock_message)))
     = [microblock_blockData sample_microblock_message, microblock_blockData sample_microblock_message]"
    by code_simp
  have c: "handleMicroblockMessage ?h 1 sample_microblock_message accepting_store []
      = (Some (Error ''sentinel block data''), [])"
    "fst (handleBlockMessage ?h 1 sample_block_message accepting_store []) = None"
    by code_simp+
  have d: "sample_tx1 \<in> set (mbm_transactions sample_microblock_message)"
    "parseMessageTransaction ?h 1 sample_tx1 (microblock_blockData sample_microblock_message)
       (mbm_events sample_microblock_message) = Inl (Error ''sentinel block data'')"
    by (simp_all add: sample_microblock_message_def sentinel_rejecting_parser_def
        microblock_blockData_def)
  have e: "parseMessageTransaction sample_helpers = sample_parseMessageTransaction"
    by (simp add: sample_helpers_def)
  note s = handleMicroblockMessage_passes_sentinels[where msg = sample_microblock_message
      and chainId = 1 and db = accepting_store and log = "[]"]
  from s[where h = sample_helpers and p = sentinel_only_parser] a
  have ok: "parseDataStoreTxEventData sample_helpers
     (concat (map (\<lambda>item.
        case parseMessageTransaction sample_helpers 1 item
               (microblock_blockData sample_microblock_message) (mbm_events sample_microblock_message) of
          Inl e \<Rightarrow> [] | Inr None \<Rightarrow> [] | Inr (Some p) \<Rightarrow> [p]) (mbm_transactions sample_microblock_message)))
     (mbm_events sample_microblock_message)
     \<lparr> ted_block_height = - 1, ted_index_block_hash = '''' \<rparr> 1 = Inr sample_microblock_bundle"
    by simp
  from s[where h = sample_helpers and p = sentinel_only_parser]
  have same: "handleMicroblockMessage (sample_helpers\<lparr> parseMessageTransaction := sentinel_only_parser \<rparr>)
     1 sample_microblock_message accepting_store [] =
   handleMicroblockMessage sample_helpers 1 sample_microblock_message accepting_store []"
    by (simp add: e sentinel_only_parser_def)
  from s[where h = ?h and p = sentinel_only_parser] d
  have fails: "\<exists>err. handleMicroblockMessage ?h 1 sample_microblock_message accepting_store []
      = (Some err, [])"
    by blast
  from a b c ok same fails show ?thesis by simp
qed

text \<open>
  \<^bold>\<open>C8\<close> (burn blocks). When the amounts of a \<^verbatim>\<open>/new_burn_block\<close> message convert, the
  handler builds one reward per entry of \<^verbatim>\<open>reward_recipients\<close>, in the order of the
  message, the reward at position \<open>i\<close> with \<^verbatim>\<open>reward_index = i\<close>, the recipient and the
  amount of entry \<open>i\<close>; and one slot holder per entry of \<^verbatim>\<open>reward_slot_holders\<close>, the one
  at position \<open>i\<close> with \<^verbatim>\<open>slot_index = i\<close> and the address of entry \<open>i\<close>. These two lists
  are what the handler passes to \<^verbatim>\<open>updateBurnchainRewards\<close> and, when the store accepted
  that call, to \<^verbatim>\<open>updateBurnchainRewardSlotHolders\<close>.
\<close>

theorem handleBurnBlockMessage_indexes:
  assumes "\<forall>r\<in>set (reward_recipients msg).
      (\<exists>a. BigInt h (burn_amount msg) = Inr a) \<and> (\<exists>a. BigInt h (amt r) = Inr a)"
  shows "\<exists>rewards. handleBurnBlockMessage_rewards h msg = Inr rewards \<and>
    length rewards = length (reward_recipients msg) \<and>
    (\<forall>i<length rewards.
       reward_index (rewards ! i) = int i \<and>
       reward_recipient (rewards ! i) = recipient (reward_recipients msg ! i) \<and>
       BigInt h (amt (reward_recipients msg ! i)) = Inr (reward_amount (rewards ! i))) \<and>
    length (handleBurnBlockMessage_slotHolders msg) = length (reward_slot_holders msg) \<and>
    (\<forall>i<length (reward_slot_holders msg).
       slot_index (handleBurnBlockMessage_slotHolders msg ! i) = int i \<and>
       address (handleBurnBlockMessage_slotHolders msg ! i) = reward_slot_holders msg ! i) \<and>
    snd (handleBurnBlockMessage h msg db log) =
      log @ UpdateBurnchainRewards (burn_block_hash msg) (burn_block_height msg) rewards #
        (case db log (UpdateBurnchainRewards (burn_block_hash msg) (burn_block_height msg) rewards) of
           None \<Rightarrow> [UpdateBurnchainRewardSlotHolders (burn_block_hash msg) (burn_block_height msg)
                      (handleBurnBlockMessage_slotHolders msg)]
         | Some e \<Rightarrow> [])"
proof -
  let ?f = "\<lambda>r index.
      case BigInt h (burn_amount msg) of
        Inl e \<Rightarrow> Inl e
      | Inr burnAmount \<Rightarrow>
          (case BigInt h (amt r) of
             Inl e \<Rightarrow> Inl e
           | Inr rewardAmount \<Rightarrow>
               Inr \<lparr> br_canonical = True,
                     br_burn_block_hash = burn_block_hash msg,
                     br_burn_block_height = burn_block_height msg,
                     br_burn_amount = burnAmount,
                     reward_recipient = recipient r,
                     reward_amount = rewardAmount,
                     reward_index = int index \<rparr>)"
  have "\<forall>j<length (reward_recipients msg). \<exists>y. ?f (reward_recipients msg ! j) (0 + j) = Inr y"
  proof (intro allI impI)
    fix j assume "j < length (reward_recipients msg)"
    then have "reward_recipients msg ! j \<in> set (reward_recipients msg)" by simp
    with assms obtain a b where "BigInt h (burn_amount msg) = Inr a"
      "BigInt h (amt (reward_recipients msg ! j)) = Inr b" by blast
    then show "\<exists>y. ?f (reward_recipients msg ! j) (0 + j) = Inr y" by simp
  qed
  from array_map_total[OF this] obtain rewards where
    r: "array_map ?f (reward_recipients msg) 0 = Inr rewards" by blast
  then have r': "handleBurnBlockMessage_rewards h msg = Inr rewards"
    by (simp add: handleBurnBlockMessage_rewards_def)
  from array_map_spec[OF r] have len: "length rewards = length (reward_recipients msg)"
    and nth: "\<forall>j<length (reward_recipients msg). ?f (reward_recipients msg ! j) (0 + j) = Inr (rewards ! j)"
    by simp_all
  have each: "\<forall>i<length rewards.
       reward_index (rewards ! i) = int i \<and>
       reward_recipient (rewards ! i) = recipient (reward_recipients msg ! i) \<and>
       BigInt h (amt (reward_recipients msg ! i)) = Inr (reward_amount (rewards ! i))"
  proof (intro allI impI)
    fix i assume "i < length rewards"
    with len nth have "?f (reward_recipients msg ! i) (0 + i) = Inr (rewards ! i)" by simp
    then obtain a b where b: "BigInt h (amt (reward_recipients msg ! i)) = Inr b" and
      eq: "\<lparr> br_canonical = True,
                     br_burn_block_hash = burn_block_hash msg,
                     br_burn_block_height = burn_block_height msg,
                     br_burn_amount = a,
                     reward_recipient = recipient (reward_recipients msg ! i),
                     reward_amount = b,
                     reward_index = int i \<rparr> = rewards ! i"
      by (auto split: sum.splits)
    from b eq[symmetric] show "reward_index (rewards ! i) = int i \<and>
       reward_recipient (rewards ! i) = recipient (reward_recipients msg ! i) \<and>
       BigInt h (amt (reward_recipients msg ! i)) = Inr (reward_amount (rewards ! i))"
      by simp
  qed
  have sl: "length (handleBurnBlockMessage_slotHolders msg) = length (reward_slot_holders msg)"
    by (simp add: handleBurnBlockMessage_slotHolders_def)
  have se: "\<forall>i<length (reward_slot_holders msg).
       slot_index (handleBurnBlockMessage_slotHolders msg ! i) = int i \<and>
       address (handleBurnBlockMessage_slotHolders msg ! i) = reward_slot_holders msg ! i"
    by (simp add: handleBurnBlockMessage_slotHolders_def nth_enumerate_eq)
  have calls: "snd (handleBurnBlockMessage h msg db log) =
      log @ UpdateBurnchainRewards (burn_block_hash msg) (burn_block_height msg) rewards #
        (case db log (UpdateBurnchainRewards (burn_block_hash msg) (burn_block_height msg) rewards) of
           None \<Rightarrow> [UpdateBurnchainRewardSlotHolders (burn_block_hash msg) (burn_block_height msg)
                      (handleBurnBlockMessage_slotHolders msg)]
         | Some e \<Rightarrow> [])"
    using r' by (simp add: handleBurnBlockMessage_def db_call_def Let_def split: option.splits)
  from r' len each sl se calls show ?thesis by blast
qed

theorem handleBurnBlockMessage_indexes_witness:
  "map reward_index (projr (handleBurnBlockMessage_rewards sample_helpers sample_burn_block_message))
     = [0, 1] \<and>
   map reward_recipient (projr (handleBurnBlockMessage_rewards sample_helpers sample_burn_block_message))
     = [''A'', ''B''] \<and>
   map reward_amount (projr (handleBurnBlockMessage_rewards sample_helpers sample_burn_block_message))
     = [5, 7] \<and>
   map slot_index (handleBurnBlockMessage_slotHolders sample_burn_block_message) = [0, 1, 2] \<and>
   map address (handleBurnBlockMessage_slotHolders sample_burn_block_message) = [''A'', ''B'', ''C''] \<and>
   (\<exists>rewards. handleBurnBlockMessage_rewards sample_helpers sample_burn_block_message = Inr rewards \<and>
      length rewards = 2)"
proof -
  have a: "map reward_index (projr (handleBurnBlockMessage_rewards sample_helpers sample_burn_block_message))
     = [0, 1]"
    "map reward_recipient (projr (handleBurnBlockMessage_rewards sample_helpers sample_burn_block_message))
     = [''A'', ''B'']"
    "map reward_amount (projr (handleBurnBlockMessage_rewards sample_helpers sample_burn_block_message))
     = [5, 7]"
    "map slot_index (handleBurnBlockMessage_slotHolders sample_burn_block_message) = [0, 1, 2]"
    "map address (handleBurnBlockMessage_slotHolders sample_burn_block_message) = [''A'', ''B'', ''C'']"
    by code_simp+
  have b: "\<forall>r\<in>set (reward_recipients sample_burn_block_message).
      (\<exists>a. BigInt sample_helpers (burn_amount sample_burn_block_message) = Inr a) \<and>
      (\<exists>a. BigInt sample_helpers (amt r) = Inr a)"
    by (simp add: sample_burn_block_message_def sample_helpers_def)
  have c: "length (reward_recipients sample_burn_block_message) = 2"
    by (simp add: sample_burn_block_message_def)
  from handleBurnBlockMessage_indexes[OF b, of accepting_store "[]"] c
  have "\<exists>rewards. handleBurnBlockMessage_rewards sample_helpers sample_burn_block_message = Inr rewards \<and>
      length rewards = 2" by auto
  with a show ?thesis by simp
qed

text \<open>
  \<^bold>\<open>C9\<close> (mode selection). \<^verbatim>\<open>getApiMode\<close> returns the mode \<^verbatim>\<open>readonly\<close>, \<^verbatim>\<open>writeonly\<close> or
  \<^verbatim>\<open>offline\<close> when \<^verbatim>\<open>STACKS_API_MODE\<close> is that string. For every other value, and when the
  variable is not set: it returns \<^verbatim>\<open>readonly\<close> when \<^verbatim>\<open>parseArgBoolean\<close> reads
  \<^verbatim>\<open>STACKS_READ_ONLY_MODE\<close> as true; otherwise \<^verbatim>\<open>offline\<close> when it reads
  \<^verbatim>\<open>STACKS_API_OFFLINE_MODE\<close> as true; otherwise the default mode.
\<close>

theorem getApiMode_selection:
  "(env ''STACKS_API_MODE'' = Some ''readonly'' \<longrightarrow> getApiMode h env = Inr readOnly) \<and>
   (env ''STACKS_API_MODE'' = Some ''writeonly'' \<longrightarrow> getApiMode h env = Inr writeOnly) \<and>
   (env ''STACKS_API_MODE'' = Some ''offline'' \<longrightarrow> getApiMode h env = Inr offline) \<and>
   (env ''STACKS_API_MODE'' \<notin> {Some ''readonly'', Some ''writeonly'', Some ''offline''} \<longrightarrow>
      (parseArgBoolean h (env ''STACKS_READ_ONLY_MODE'') = Inr True \<longrightarrow>
         getApiMode h env = Inr readOnly) \<and>
      (parseArgBoolean h (env ''STACKS_READ_ONLY_MODE'') = Inr False \<and>
       parseArgBoolean h (env ''STACKS_API_OFFLINE_MODE'') = Inr True \<longrightarrow>
         getApiMode h env = Inr offline) \<and>
      (parseArgBoolean h (env ''STACKS_READ_ONLY_MODE'') = Inr False \<and>
       parseArgBoolean h (env ''STACKS_API_OFFLINE_MODE'') = Inr False \<longrightarrow>
         getApiMode h env = Inr default_mode))"
  by (simp add: getApiMode_def)

theorem getApiMode_selection_witness:
  "getApiMode sample_helpers (\<lambda>k. if k = ''STACKS_API_MODE'' then Some ''writeonly'' else None)
     = Inr writeOnly \<and>
   getApiMode sample_helpers
     (\<lambda>k. if k = ''STACKS_API_MODE'' then Some ''offline''
           else if k = ''STACKS_READ_ONLY_MODE'' then Some ''1'' else None) = Inr offline \<and>
   getApiMode sample_helpers
     (\<lambda>k. if k = ''STACKS_API_MODE'' then Some ''default''
           else if k = ''STACKS_READ_ONLY_MODE'' then Some ''1'' else None) = Inr readOnly \<and>
   getApiMode sample_helpers (\<lambda>k. if k = ''STACKS_API_OFFLINE_MODE'' then Some ''1'' else None)
     = Inr offline \<and>
   getApiMode sample_helpers (\<lambda>k. None) = Inr default_mode"
proof -
  have p: "parseArgBoolean sample_helpers None = Inr False"
    "parseArgBoolean sample_helpers (Some ''1'') = Inr True"
    by (simp_all add: sample_helpers_def)
  from getApiMode_selection[of "\<lambda>k. if k = ''STACKS_API_MODE'' then Some ''writeonly'' else None" sample_helpers]
  have 1: "getApiMode sample_helpers (\<lambda>k. if k = ''STACKS_API_MODE'' then Some ''writeonly'' else None)
     = Inr writeOnly" by simp
  from getApiMode_selection[of "\<lambda>k. if k = ''STACKS_API_MODE'' then Some ''offline''
           else if k = ''STACKS_READ_ONLY_MODE'' then Some ''1'' else None" sample_helpers]
  have 2: "getApiMode sample_helpers
     (\<lambda>k. if k = ''STACKS_API_MODE'' then Some ''offline''
           else if k = ''STACKS_READ_ONLY_MODE'' then Some ''1'' else None) = Inr offline" by simp
  from getApiMode_selection[of "\<lambda>k. if k = ''STACKS_API_MODE'' then Some ''default''
           else if k = ''STACKS_READ_ONLY_MODE'' then Some ''1'' else None" sample_helpers] p
  have 3: "getApiMode sample_helpers
     (\<lambda>k. if k = ''STACKS_API_MODE'' then Some ''default''
           else if k = ''STACKS_READ_ONLY_MODE'' then Some ''1'' else None) = Inr readOnly" by simp
  from getApiMode_selection[of "\<lambda>k. if k = ''STACKS_API_OFFLINE_MODE'' then Some ''1'' else None"
      sample_helpers] p
  have 4: "getApiMode sample_helpers (\<lambda>k. if k = ''STACKS_API_OFFLINE_MODE'' then Some ''1'' else None)
     = Inr offline" by simp
  from getApiMode_selection[of "\<lambda>k. None" sample_helpers] p
  have 5: "getApiMode sample_helpers (\<lambda>k. None) = Inr default_mode" by simp
  from 1 2 3 4 5 show ?thesis by simp
qed

text \<open>
  \<^bold>\<open>C10\<close> (execution cost of a block). Whenever \<^verbatim>\<open>handleBlockMessage\<close> reaches the store,
  the one call it issues is \<^verbatim>\<open>db.update\<close>, and the block of the data it passes has the
  five execution-cost fields equal to 0, whatever the message holds.
\<close>

theorem handleBlockMessage_execution_cost_zero:
  assumes "handleBlockMessage_dbData h chainId msg = Inr dbData"
  shows "snd (handleBlockMessage h chainId msg db log) = log @ [Update dbData] \<and>
    block dbData = dbBlock msg \<and>
    execution_cost_read_count (block dbData) = 0 \<and>
    execution_cost_read_length (block dbData) = 0 \<and>
    execution_cost_runtime (block dbData) = 0 \<and>
    execution_cost_write_count (block dbData) = 0 \<and>
    execution_cost_write_length (block dbData) = 0"
proof -
  from assms have b: "block dbData = dbBlock msg"
    by (auto simp: handleBlockMessage_dbData_def split: sum.splits)
  from assms have "snd (handleBlockMessage h chainId msg db log) = log @ [Update dbData]"
    by (simp add: handleBlockMessage_def db_call_def)
  with b show ?thesis by (simp add: dbBlock_def)
qed

theorem handleBlockMessage_execution_cost_zero_witness:
  "handleBlockMessage_dbData sample_helpers 1 sample_block_message =
     Inr \<lparr> block = dbBlock sample_block_message, microblocks = [],
           minerRewards = [\<lparr> mr_canonical = True, mr_block_hash = ''0xa0'',
             mr_index_block_hash = ''0x1b'', from_index_block_hash = ''0xa1'',
             mature_block_height = 7, mr_recipient = ''SP9'', coinbase_amount = 1000,
             tx_fees_anchored = 1, tx_fees_streamed_confirmed = 2,
             tx_fees_streamed_produced = 3 \<rparr>],
           txs = sample_bundle \<rparr> \<and>
   execution_cost_read_count (dbBlock sample_block_message) = 0 \<and>
   execution_cost_read_length (dbBlock sample_block_message) = 0 \<and>
   execution_cost_runtime (dbBlock sample_block_message) = 0 \<and>
   execution_cost_write_count (dbBlock sample_block_message) = 0 \<and>
   execution_cost_write_length (dbBlock sample_block_message) = 0 \<and>
   blk_block_height (dbBlock sample_block_message) = 7"
proof -
  have a: "handleBlockMessage_dbData sample_helpers 1 sample_block_message =
     Inr \<lparr> block = dbBlock sample_block_message, microblocks = [],
           minerRewards = [\<lparr> mr_canonical = True, mr_block_hash = ''0xa0'',
             mr_index_block_hash = ''0x1b'', from_index_block_hash = ''0xa1'',
             mature_block_height = 7, mr_recipient = ''SP9'', coinbase_amount = 1000,
             tx_fees_anchored = 1, tx_fees_streamed_confirmed = 2,
             tx_fees_streamed_produced = 3 \<rparr>],
           txs = sample_bundle \<rparr>" by code_simp
  have b: "blk_block_height (dbBlock sample_block_message) = 7"
    by (simp add: dbBlock_def sample_block_message_def)
  from handleBlockMessage_execution_cost_zero[OF a, of accepting_store "[]"] a b
  show ?thesis by simp
qed

end
